theory Spec2Isabelle
  imports Complex_Main
begin

section \<open>Durations, errors and the retry configuration\<close>

text \<open>
  The package \<open>ebo\<close> retries an operation with exponential backoff. A
  \<open>time.Duration\<close> is a signed count of nanoseconds; the attempt counters are Go
  \<open>int\<close>s that only ever count loop rounds. Both are integers here. The two
  \<open>float64\<close> fields of the configuration are real numbers: the products and sums the
  code forms with them are exact in this model, and the conversion \<open>time.Duration(x)\<close>
  of a float to a duration drops the fraction (truncation toward zero), as Go does for
  values in range.
\<close>

type_synonym duration = int

definition Millisecond :: duration where
  "Millisecond = 1000000"

definition Second :: duration where
  "Second = 1000000000"

definition Minute :: duration where
  "Minute = 60000000000"

definition Duration :: "real \<Rightarrow> duration" where
  \<comment> \<open>\<open>time.Duration(x)\<close> for a \<open>float64\<close> \<open>x\<close>\<close>
  "Duration x = (if 0 \<le> x then \<lfloor>x\<rfloor> else \<lceil>x\<rceil>)"

text \<open>
  An \<open>error\<close> value is either a plain error with its message (\<open>errors.New\<close>), an
  error wrapping another one (\<open>fmt.Errorf\<close> with \<open>%w\<close>; the message is the whole
  formatted text), or the package's marker \<open>&permanentError{err}\<close> (helpers.go:85),
  which the package builds around an error that is not \<open>nil\<close> (helpers.go:76-78).
  Go's \<open>nil\<close> error is \<open>None\<close> of \<open>error option\<close>. Errors form chains here; trees
  of errors (\<open>errors.Join\<close>) are not modelled.
\<close>

datatype error =
    New string
  | Wrap string error
  | permanentError error

fun Error :: "error \<Rightarrow> string" where
  "Error (New s) = s"
| "Error (Wrap s e) = s"
| "Error (permanentError e) = ''non-retryable error: '' @ Error e"

fun Unwrap :: "error \<Rightarrow> error option" where
  "Unwrap (New s) = None"
| "Unwrap (Wrap s e) = Some e"
| "Unwrap (permanentError e) = Some e"

text \<open>
  \<open>var permErr *permanentError; errors.As(err, &permErr)\<close> walks the chain
  \<open>err, Unwrap(err), ...\<close> and stops at the first \<open>*permanentError\<close>; the callers
  then return \<open>permErr.err\<close>. \<open>As_permanentError\<close> gives that \<open>permErr.err\<close>, and
  \<open>None\<close> when \<open>errors.As\<close> reports false.
\<close>

fun As_permanentError :: "error \<Rightarrow> error option" where
  "As_permanentError (New s) = None"
| "As_permanentError (Wrap s e) = As_permanentError e"
| "As_permanentError (permanentError e) = Some e"

fun chain :: "error \<Rightarrow> error list" where
  "chain (New s) = [New s]"
| "chain (Wrap s e) = Wrap s e # chain e"
| "chain (permanentError e) = permanentError e # chain e"

fun is_permanentError :: "error \<Rightarrow> bool" where
  "is_permanentError (permanentError e) = True"
| "is_permanentError e = False"

definition Canceled :: error where
  "Canceled = New ''context canceled''"

definition DeadlineExceeded :: error where
  "DeadlineExceeded = New ''context deadline exceeded''"

record RetryConfig =
  InitialInterval :: duration
  MaxInterval :: duration
  MaxRetries :: int
  Multiplier :: real
  MaxElapsedTime :: duration
  RandomizeFactor :: real

type_synonym Option = "RetryConfig \<Rightarrow> RetryConfig"

subsection \<open>The options (retry.go:22-62 and the file of the short names, part_002)\<close>

definition WithInitialInterval :: "duration \<Rightarrow> Option" where
  "WithInitialInterval interval c = c\<lparr>InitialInterval := interval\<rparr>"

definition WithMaxInterval :: "duration \<Rightarrow> Option" where
  "WithMaxInterval interval c = c\<lparr>MaxInterval := interval\<rparr>"

definition WithMaxRetries :: "int \<Rightarrow> Option" where
  "WithMaxRetries retries c = c\<lparr>MaxRetries := retries\<rparr>"

definition WithMultiplier :: "real \<Rightarrow> Option" where
  "WithMultiplier multiplier c = c\<lparr>Multiplier := multiplier\<rparr>"

definition WithMaxElapsedTime :: "duration \<Rightarrow> Option" where
  "WithMaxElapsedTime d c = c\<lparr>MaxElapsedTime := d\<rparr>"

definition WithRandomizeFactor :: "real \<Rightarrow> Option" where
  "WithRandomizeFactor factor c = c\<lparr>RandomizeFactor := factor\<rparr>"

definition Initial :: "duration \<Rightarrow> Option" where
  "Initial d c = c\<lparr>InitialInterval := d\<rparr>"

definition Max_opt :: "duration \<Rightarrow> Option" where
  \<comment> \<open>\<open>Max\<close> in the source\<close>
  "Max_opt d c = c\<lparr>MaxInterval := d\<rparr>"

definition MaxTime :: "duration \<Rightarrow> Option" where
  "MaxTime d c = c\<lparr>MaxElapsedTime := d\<rparr>"

definition Tries :: "int \<Rightarrow> Option" where
  "Tries n c = c\<lparr>MaxRetries := n\<rparr>"

definition Multiplier_opt :: "real \<Rightarrow> Option" where
  \<comment> \<open>\<open>Multiplier\<close> in the source, which is also the name of the field\<close>
  "Multiplier_opt f c = c\<lparr>Multiplier := f\<rparr>"

definition Jitter :: "real \<Rightarrow> Option" where
  "Jitter f c = c\<lparr>RandomizeFactor := f\<rparr>"

definition NoJitter :: Option where
  "NoJitter c = c\<lparr>RandomizeFactor := 0\<rparr>"

definition Forever :: Option where
  "Forever c = c\<lparr>MaxRetries := 0\<rparr>"

definition Aggressive :: Option where
  "Aggressive c = c\<lparr>InitialInterval := 100 * Millisecond, MaxInterval := 5 * Second,
     MaxRetries := 20, Multiplier := 1.5, RandomizeFactor := 0.1\<rparr>"

definition Gentle :: Option where
  "Gentle c = c\<lparr>InitialInterval := 2 * Second, MaxInterval := 30 * Second,
     MaxRetries := 5, Multiplier := 2.0, RandomizeFactor := 0.5\<rparr>"

definition Linear :: Option where
  "Linear c = c\<lparr>Multiplier := 1.0, RandomizeFactor := 0\<rparr>"

definition Exponential :: "real \<Rightarrow> Option" where
  "Exponential factor c = c\<lparr>Multiplier := factor, RandomizeFactor := 0.25\<rparr>"

definition HTTPStatus :: Option where
  "HTTPStatus c = c\<lparr>InitialInterval := 500 * Millisecond, MaxInterval := 10 * Second,
     MaxRetries := 5, Multiplier := 2.0, RandomizeFactor := 0.25\<rparr>"

definition Database :: Option where
  "Database c = c\<lparr>InitialInterval := 1 * Second, MaxInterval := 30 * Second,
     MaxRetries := 10, Multiplier := 2.0, RandomizeFactor := 0.5,
     MaxElapsedTime := 2 * Minute\<rparr>"

definition API :: Option where
  "API c = c\<lparr>InitialInterval := 200 * Millisecond, MaxInterval := 5 * Second,
     MaxRetries := 3, Multiplier := 2.0, RandomizeFactor := 0.3\<rparr>"

definition Quick :: Option where
  "Quick c = c\<lparr>InitialInterval := 50 * Millisecond, MaxInterval := 1 * Second,
     MaxRetries := 3, Multiplier := 2.0, RandomizeFactor := 0.1\<rparr>"

definition Timeout :: "duration \<Rightarrow> Option" where
  "Timeout d c = c\<lparr>MaxElapsedTime := d, MaxRetries := 0\<rparr>"

text \<open>
  Every entry point starts from the same literal configuration and runs
  \<open>for _, opt := range opts { opt(config) }\<close>.
\<close>

definition defaultConfig :: RetryConfig where
  "defaultConfig = \<lparr>InitialInterval = 500 * Millisecond, MaxInterval = 30 * Second,
     MaxRetries = 10, Multiplier = 2.0, MaxElapsedTime = 5 * Minute,
     RandomizeFactor = 0.5\<rparr>"

definition applyOptions :: "Option list \<Rightarrow> RetryConfig \<Rightarrow> RetryConfig" where
  "applyOptions opts config = foldl (\<lambda>c opt. opt c) config opts"

definition newConfig :: "Option list \<Rightarrow> RetryConfig" where
  "newConfig opts = applyOptions opts defaultConfig"

section \<open>The world an operation runs in\<close>

text \<open>
  The code reads the clock (\<open>time.Now\<close>, \<open>time.Since\<close>), sleeps (\<open>time.Sleep\<close>) and
  draws random numbers (\<open>rand.Float64\<close>). These effects are threaded through an explicit
  world: the clock in nanoseconds, the stream of numbers the random source will return
  with the count of those already drawn, and the part of the program state the caller's
  closures own. An operation \<open>func() error\<close> is a function from the world to its result
  and the world it leaves; it may take time, draw random numbers and change its own state.
\<close>

record 'u world =
  clock :: int
  draws :: "nat \<Rightarrow> real"
  drawn :: nat
  user :: 'u

type_synonym 'u operation = "'u world \<Rightarrow> error option \<times> 'u world"

definition Sleep :: "duration \<Rightarrow> 'u world \<Rightarrow> 'u world" where
  \<comment> \<open>\<open>time.Sleep(d)\<close>; a negative or zero duration returns at once\<close>
  "Sleep d w = w\<lparr>clock := clock w + max 0 d\<rparr>"

definition Float64 :: "'u world \<Rightarrow> real \<times> 'u world" where
  \<comment> \<open>\<open>rand.Float64()\<close>\<close>
  "Float64 w = (draws w (drawn w), w\<lparr>drawn := Suc (drawn w)\<rparr>)"

text \<open>
  A closure that captures variables of the function that builds it runs in a world
  extended by those variables: \<open>enter\<close> adds them, \<open>leave\<close> hides them again while the
  caller's own operation runs, \<open>locals\<close> reads them.
\<close>

definition enter :: "'c \<Rightarrow> 'u world \<Rightarrow> ('u \<times> 'c) world" where
  "enter c w = \<lparr>clock = clock w, draws = draws w, drawn = drawn w, user = (user w, c)\<rparr>"

definition leave :: "('u \<times> 'c) world \<Rightarrow> 'u world" where
  "leave W = \<lparr>clock = clock W, draws = draws W, drawn = drawn W, user = fst (user W)\<rparr>"

definition locals :: "('u \<times> 'c) world \<Rightarrow> 'c" where
  "locals W = snd (user W)"

text \<open>
  The \<open>Attempt\<close> the iterator hands to its caller. Its \<open>Context\<close> field only tells
  which context the attempt carries: \<open>Attempts\<close> always stores \<open>context.Background()\<close>.
\<close>

datatype context_ref = Background_ctx | Caller_ctx

record Attempt =
  Number :: int
  Delay :: duration
  Elapsed :: duration
  LastError :: "error option"
  Context :: context_ref

text \<open>
  What a run did is returned next to its result as a list of events, in order: every
  invocation of the operation with the error it returned, every \<open>time.Sleep\<close> with
  its argument and, for the iterator, every attempt it yielded.
\<close>

datatype event = Invoked "error option" | Slept duration | Yielded Attempt

record 'w result =
  err :: "error option"
  trace :: "event list"
  final :: 'w

definition after :: "event list \<Rightarrow> 'w result \<Rightarrow> 'w result" where
  "after evs r = r\<lparr>trace := evs @ trace r\<rparr>"

fun invocations :: "event list \<Rightarrow> error option list" where
  "invocations [] = []"
| "invocations (Invoked e # evs) = e # invocations evs"
| "invocations (Slept d # evs) = invocations evs"
| "invocations (Yielded a # evs) = invocations evs"

fun sleeps :: "event list \<Rightarrow> duration list" where
  "sleeps [] = []"
| "sleeps (Invoked e # evs) = sleeps evs"
| "sleeps (Slept d # evs) = d # sleeps evs"
| "sleeps (Yielded a # evs) = sleeps evs"

section \<open>Retry\<close>

subsection \<open>The next interval (retry.go:100-106)\<close>

definition raw :: "RetryConfig \<Rightarrow> duration \<Rightarrow> duration" where
  \<comment> \<open>\<open>time.Duration(float64(currentInterval)*config.Multiplier)\<close>, before the cap\<close>
  "raw config currentInterval = Duration (real_of_int currentInterval * Multiplier config)"

definition grown :: "RetryConfig \<Rightarrow> duration \<Rightarrow> duration" where
  \<comment> \<open>line 100: \<open>nextInterval := min(..., config.MaxInterval)\<close>\<close>
  "grown config currentInterval = min (raw config currentInterval) (MaxInterval config)"

definition jittered :: "RetryConfig \<Rightarrow> duration \<Rightarrow> real \<Rightarrow> duration" where
  \<comment> \<open>lines 102-105, with \<open>r\<close> the value of \<open>rand.Float64()\<close>\<close>
  "jittered config nextInterval r =
     (let delta = RandomizeFactor config * real_of_int nextInterval;
          minInterval = real_of_int nextInterval - delta;
          maxInterval = real_of_int nextInterval + delta
      in Duration (minInterval + (r * (maxInterval - minInterval))))"

definition newInterval :: "RetryConfig \<Rightarrow> duration \<Rightarrow> 'u world \<Rightarrow> duration \<times> 'u world" where
  "newInterval config currentInterval w =
     (let next = grown config currentInterval
      in if RandomizeFactor config > 0
         then (case Float64 w of (r, w') \<Rightarrow> (jittered config next r, w'))
         else (next, w))"

subsection \<open>The loop (retry.go:86-110, helpers_test.go:301-330)\<close>

text \<open>
  The repository holds two revisions of \<open>Retry\<close>. They are the same loop, line by line,
  except that the later one (helpers_test.go:283-331, written with the short option
  names, the revision that \<open>RetryWithCondition\<close> and the tests of the helpers rely on)
  inspects a failed attempt's error for the \<open>permanentError\<close> marker before it counts
  the attempt (its lines 307-311), and the earlier one (retry.go:68-110) has no such
  lines. The loop takes that inspection as its argument \<open>asPermanent\<close>:
  \<open>As_permanentError\<close> for the later revision, the constant \<open>None\<close> for the earlier.

  The loop has no bound of its own (with no attempt cap and no time cap it runs as long
  as the operation fails), so the model counts rounds: \<open>None\<close> means the rounds given
  were used up before the loop returned.
\<close>

fun Retry_loop ::
  "nat \<Rightarrow> (error \<Rightarrow> error option) \<Rightarrow> 'u operation \<Rightarrow> RetryConfig \<Rightarrow> int \<Rightarrow> int \<Rightarrow> duration
     \<Rightarrow> 'u world \<Rightarrow> 'u world result option" where
  "Retry_loop 0 asPermanent fn config startTime attempts currentInterval w = None"
| "Retry_loop (Suc rounds) asPermanent fn config startTime attempts currentInterval w =
     (case fn w of
        (None, w1) \<Rightarrow> Some \<lparr>err = None, trace = [Invoked None], final = w1\<rparr>
      | (Some e, w1) \<Rightarrow>
          (case asPermanent e of
             Some cause \<Rightarrow> Some \<lparr>err = Some cause, trace = [Invoked (Some e)], final = w1\<rparr>
           | None \<Rightarrow>
               (let attempts' = attempts + 1 in
                if MaxRetries config > 0 \<and> attempts' \<ge> MaxRetries config
                then Some \<lparr>err = Some e, trace = [Invoked (Some e)], final = w1\<rparr>
                else if MaxElapsedTime config > 0 \<and> clock w1 - startTime \<ge> MaxElapsedTime config
                then Some \<lparr>err = Some e, trace = [Invoked (Some e)], final = w1\<rparr>
                else (case newInterval config currentInterval w1 of
                        (next, w2) \<Rightarrow>
                          map_option (after [Invoked (Some e), Slept currentInterval])
                            (Retry_loop rounds asPermanent fn config startTime attempts' next
                               (Sleep currentInterval w2))))))"

definition Retry :: "nat \<Rightarrow> 'u operation \<Rightarrow> Option list \<Rightarrow> 'u world \<Rightarrow> 'u world result option" where
  \<comment> \<open>the later revision, helpers_test.go:283-331\<close>
  "Retry rounds fn opts w =
     (let config = newConfig opts; startTime = clock w
      in Retry_loop rounds As_permanentError fn config startTime 0 (InitialInterval config) w)"

definition Retry_prev :: "nat \<Rightarrow> 'u operation \<Rightarrow> Option list \<Rightarrow> 'u world \<Rightarrow> 'u world result option" where
  \<comment> \<open>the earlier revision, retry.go:68-110\<close>
  "Retry_prev rounds fn opts w =
     (let config = newConfig opts; startTime = clock w
      in Retry_loop rounds (\<lambda>e. None) fn config startTime 0 (InitialInterval config) w)"

subsection \<open>The helpers (helpers.go)\<close>

text \<open>
  A \<open>context.Context\<close> is used through \<open>ctx.Done()\<close> and \<open>ctx.Err()\<close> only. It is the
  function that tells, for a world, what \<open>ctx.Err()\<close> returns there: \<open>None\<close> while the
  context is live, the cancellation error once \<open>Done\<close> is closed.
\<close>

type_synonym 'u Context = "'u world \<Rightarrow> error option"

definition RetryWithContext ::
  "nat \<Rightarrow> 'u Context \<Rightarrow> 'u operation \<Rightarrow> Option list \<Rightarrow> 'u world \<Rightarrow> 'u world result option" where
  "RetryWithContext rounds ctx fn opts w =
     Retry rounds (\<lambda>w. case ctx w of Some e \<Rightarrow> (Some e, w) | None \<Rightarrow> fn w) opts w"

text \<open>
  \<open>counted fn\<close> is \<open>fn\<close> with a counter of its invocations beside it; the counter is not
  part of the program, it is how a statement speaks of the number of calls of \<open>fn\<close>.
\<close>

definition counted :: "'u operation \<Rightarrow> ('u \<times> nat) operation" where
  "counted fn W = (case fn (leave W) of (e, w') \<Rightarrow> (e, enter (Suc (locals W)) w'))"

fun digits :: "nat \<Rightarrow> string" where
  "digits n = (if n < 10 then [''0123456789'' ! n]
               else digits (n div 10) @ [''0123456789'' ! (n mod 10)])"

declare digits.simps [simp del]

definition Itoa :: "int \<Rightarrow> string" where
  \<comment> \<open>the verb \<open>%d\<close>\<close>
  "Itoa i = (if i < 0 then CHR ''-'' # digits (nat (- i)) else digits (nat i))"

text \<open>
  \<open>RetryWithLogging\<close> captures the counter \<open>attempt\<close> and the logger; the logger is the
  list of the lines printed to it (without the prefix and flags a \<open>log.Logger\<close> adds).
\<close>

definition RetryWithLogging_closure :: "'u operation \<Rightarrow> ('u \<times> int \<times> string list) operation" where
  \<comment> \<open>the \<open>func() error\<close> of lines 44-51\<close>
  "RetryWithLogging_closure fn W =
     (case locals W of
        (attempt, logger) \<Rightarrow>
          (let attempt' = attempt + 1 in
           case fn (leave W) of
             (None, w') \<Rightarrow> (None, enter (attempt', logger) w')
           | (Some e, w') \<Rightarrow>
               (Some e, enter (attempt',
                  logger @ [''Attempt '' @ Itoa attempt' @ '' failed: '' @ Error e]) w')))"

definition RetryWithLogging ::
  "nat \<Rightarrow> 'u operation \<Rightarrow> string list \<Rightarrow> Option list \<Rightarrow> 'u world
     \<Rightarrow> ('u \<times> int \<times> string list) world result option" where
  "RetryWithLogging rounds fn logger opts w =
     Retry rounds (RetryWithLogging_closure fn) opts (enter (0, logger) w)"

definition RetryWithCondition ::
  "nat \<Rightarrow> 'u operation \<Rightarrow> (error \<Rightarrow> bool) \<Rightarrow> Option list \<Rightarrow> 'u world \<Rightarrow> 'u world result option" where
  "RetryWithCondition rounds fn condition opts w =
     Retry rounds
       (\<lambda>w. case fn w of
          (None, w') \<Rightarrow> (None, w')
        | (Some e, w') \<Rightarrow> (if \<not> condition e then (Some (permanentError e), w') else (Some e, w')))
       opts w"

section \<open>The attempt iterator\<close>

text \<open>
  \<open>Attempts(opts...)\<close> returns a function \<open>func(yield func(*Attempt) bool)\<close>; a
  \<open>for attempt := range Attempts(...)\<close> loop calls it with the loop body as \<open>yield\<close>,
  which answers \<open>false\<close> when the body leaves the loop. The body runs in the world and
  may change it. The repository holds two revisions of the iterator file (both in
  part_008); the tests of the iterator (a second attempt delayed by the initial
  interval) agree with the one that is modelled first.
\<close>

type_synonym 'u yield = "Attempt \<Rightarrow> 'u world \<Rightarrow> bool \<times> 'u world"

definition Rem :: "int \<Rightarrow> int \<Rightarrow> int" where
  \<comment> \<open>Go's \<open>%\<close>: the remainder has the sign of the dividend\<close>
  "Rem a b = (if 0 \<le> a then a mod \<bar>b\<bar> else - ((- a) mod \<bar>b\<bar>))"

definition randomFloat :: "'u world \<Rightarrow> real" where
  \<comment> \<open>\<open>float64(time.Now().UnixNano()%1000000) / 1000000.0\<close>\<close>
  "randomFloat w = real_of_int (Rem (clock w) 1000000) / 1000000.0"

subsection \<open>The revision with literal defaults (lines 470-536 of the iterator file)\<close>

fun Attempts_loop ::
  "nat \<Rightarrow> RetryConfig \<Rightarrow> 'u yield \<Rightarrow> int \<Rightarrow> int \<Rightarrow> duration \<Rightarrow> duration \<Rightarrow> 'u world
     \<Rightarrow> (event list \<times> 'u world) option" where
  "Attempts_loop 0 config yield startTime attempts currentDelay nextInterval w = None"
| "Attempts_loop (Suc rounds) config yield startTime attempts currentDelay nextInterval w =
     (let attempts' = attempts + 1;
          elapsed = clock w - startTime
      in if attempts' > 1 \<and> MaxRetries config > 0 \<and> attempts' > MaxRetries config
         then Some ([], w)
         else if attempts' > 1 \<and> MaxElapsedTime config > 0 \<and> elapsed \<ge> MaxElapsedTime config
         then Some ([], w)
         else
           (let attempt = \<lparr>Number = attempts', Delay = currentDelay, Elapsed = elapsed,
                            LastError = None, Context = Background_ctx\<rparr>;
                pause = (if currentDelay > 0 then [Slept currentDelay] else []);
                w1 = (if currentDelay > 0 then Sleep currentDelay w else w)
            in case yield attempt w1 of
                 (False, w2) \<Rightarrow> Some (pause @ [Yielded attempt], w2)
               | (True, w2) \<Rightarrow>
                   (let currentDelay' = nextInterval;
                        nextInterval' = grown config nextInterval;
                        nextInterval'' =
                          (if RandomizeFactor config > 0
                           then jittered config nextInterval' (randomFloat w2)
                           else nextInterval')
                    in map_option (\<lambda>(evs, w'). (pause @ Yielded attempt # evs, w'))
                         (Attempts_loop rounds config yield startTime attempts' currentDelay'
                            nextInterval'' w2))))"

definition Attempts :: "nat \<Rightarrow> Option list \<Rightarrow> 'u yield \<Rightarrow> 'u world \<Rightarrow> (event list \<times> 'u world) option" where
  \<comment> \<open>\<open>lastError\<close> is declared and never assigned: every attempt carries \<open>nil\<close>\<close>
  "Attempts rounds opts yield w =
     (let config = newConfig opts; startTime = clock w
      in Attempts_loop rounds config yield startTime 0 0 (InitialInterval config) w)"





subsection \<open>The revision returning \<open>iter.Seq\<close> (lines 207-277 and 381-403 of the iterator file)\<close>

text \<open>
  This revision names its defaults \<open>defaultInitialInterval\<close>, ..., and calls
  \<open>getNextInterval\<close> for the jitter; neither the constants nor that function are among
  the sources. \<open>getNextInterval\<close> is an argument of the model.
\<close>

type_synonym 'u getNextInterval = "duration \<Rightarrow> real \<Rightarrow> 'u world \<Rightarrow> duration \<times> 'u world"

fun Attempts_seq_loop ::
  "nat \<Rightarrow> 'u getNextInterval \<Rightarrow> RetryConfig \<Rightarrow> 'u yield \<Rightarrow> int \<Rightarrow> int \<Rightarrow> duration \<Rightarrow> duration
     \<Rightarrow> 'u world \<Rightarrow> (event list \<times> 'u world) option" where
  "Attempts_seq_loop 0 getNextInterval config yield startTime i currentInterval elapsed w = None"
| "Attempts_seq_loop (Suc rounds) getNextInterval config yield startTime i currentInterval elapsed w =
     (if MaxRetries config > 0 \<and> i \<ge> MaxRetries config then Some ([], w)
      else if MaxElapsedTime config > 0 \<and> elapsed > MaxElapsedTime config then Some ([], w)
      else
        (let attempt = \<lparr>Number = i + 1, Delay = (if i = 0 then 0 else currentInterval),
                         Elapsed = elapsed, LastError = None, Context = Background_ctx\<rparr>;
             pause = (if i > 0 then [Slept currentInterval] else []);
             w1 = (if i > 0 then Sleep currentInterval w else w);
             elapsed' = (if i > 0 then clock w1 - startTime else elapsed)
         in case yield attempt w1 of
              (False, w2) \<Rightarrow> Some (pause @ [Yielded attempt], w2)
            | (True, w2) \<Rightarrow>
                (let c1 = (if Multiplier config > 0
                           then Duration (real_of_int currentInterval * Multiplier config)
                           else currentInterval);
                     c2 = (if c1 > MaxInterval config then MaxInterval config else c1)
                 in case (if RandomizeFactor config > 0
                          then getNextInterval c2 (RandomizeFactor config) w2
                          else (c2, w2)) of
                      (c3, w3) \<Rightarrow>
                        map_option (\<lambda>(evs, w'). (pause @ Yielded attempt # evs, w'))
                          (Attempts_seq_loop rounds getNextInterval config yield startTime (i + 1)
                             c3 elapsed' w3))))"

definition Attempts_seq ::
  "nat \<Rightarrow> 'u getNextInterval \<Rightarrow> Option list \<Rightarrow> 'u yield \<Rightarrow> 'u world
     \<Rightarrow> (event list \<times> 'u world) option" where
  \<comment> \<open>Modelled from the spec: the constants \<open>defaultInitialInterval\<close>, \<open>defaultMaxInterval\<close>,
      \<open>defaultMaxRetries\<close>, \<open>defaultMultiplier\<close>, \<open>defaultMaxElapsedTime\<close> and
      \<open>defaultRandomizeFactor\<close> are declared in no source file; they are the defaults the
      specification lists (500ms, 30s, 10, 2.0, 5min, 0.5), the literals of \<open>defaultConfig\<close>.\<close>
  "Attempts_seq rounds getNextInterval opts yield w =
     (let config = newConfig opts; startTime = clock w
      in Attempts_seq_loop rounds getNextInterval config yield startTime 0
           (InitialInterval config) 0 w)"



section \<open>The vocabulary of options\<close>

text \<open>
  An \<open>Option\<close> is any function on the configuration. The options the package offers
  are listed by \<open>override\<close>; \<open>option_of\<close> gives the function each one stands for and
  \<open>assigns\<close> the fields its body assigns, in the order of the source.
\<close>

datatype field =
    InitialInterval_field
  | MaxInterval_field
  | MaxRetries_field
  | Multiplier_field
  | MaxElapsedTime_field
  | RandomizeFactor_field

datatype field_value = DurationValue duration | IntValue int | FloatValue real

fun field_of :: "field \<Rightarrow> RetryConfig \<Rightarrow> field_value" where
  "field_of InitialInterval_field c = DurationValue (InitialInterval c)"
| "field_of MaxInterval_field c = DurationValue (MaxInterval c)"
| "field_of MaxRetries_field c = IntValue (MaxRetries c)"
| "field_of Multiplier_field c = FloatValue (Multiplier c)"
| "field_of MaxElapsedTime_field c = DurationValue (MaxElapsedTime c)"
| "field_of RandomizeFactor_field c = FloatValue (RandomizeFactor c)"

datatype override =
    with_WithInitialInterval duration
  | with_WithMaxInterval duration
  | with_WithMaxRetries int
  | with_WithMultiplier real
  | with_WithMaxElapsedTime duration
  | with_WithRandomizeFactor real
  | with_Initial duration
  | with_Max duration
  | with_MaxTime duration
  | with_Tries int
  | with_Multiplier real
  | with_Jitter real
  | with_NoJitter
  | with_Forever
  | with_Aggressive
  | with_Gentle
  | with_Linear
  | with_Exponential real
  | with_HTTPStatus
  | with_Database
  | with_API
  | with_Quick
  | with_Timeout duration

fun option_of :: "override \<Rightarrow> Option" where
  "option_of (with_WithInitialInterval d) = WithInitialInterval d"
| "option_of (with_WithMaxInterval d) = WithMaxInterval d"
| "option_of (with_WithMaxRetries n) = WithMaxRetries n"
| "option_of (with_WithMultiplier f) = WithMultiplier f"
| "option_of (with_WithMaxElapsedTime d) = WithMaxElapsedTime d"
| "option_of (with_WithRandomizeFactor f) = WithRandomizeFactor f"
| "option_of (with_Initial d) = Initial d"
| "option_of (with_Max d) = Max_opt d"
| "option_of (with_MaxTime d) = MaxTime d"
| "option_of (with_Tries n) = Tries n"
| "option_of (with_Multiplier f) = Multiplier_opt f"
| "option_of (with_Jitter f) = Jitter f"
| "option_of with_NoJitter = NoJitter"
| "option_of with_Forever = Forever"
| "option_of with_Aggressive = Aggressive"
| "option_of with_Gentle = Gentle"
| "option_of with_Linear = Linear"
| "option_of (with_Exponential f) = Exponential f"
| "option_of with_HTTPStatus = HTTPStatus"
| "option_of with_Database = Database"
| "option_of with_API = API"
| "option_of with_Quick = Quick"
| "option_of (with_Timeout d) = Timeout d"

fun assigns :: "override \<Rightarrow> field list" where
  "assigns (with_WithInitialInterval d) = [InitialInterval_field]"
| "assigns (with_WithMaxInterval d) = [MaxInterval_field]"
| "assigns (with_WithMaxRetries n) = [MaxRetries_field]"
| "assigns (with_WithMultiplier f) = [Multiplier_field]"
| "assigns (with_WithMaxElapsedTime d) = [MaxElapsedTime_field]"
| "assigns (with_WithRandomizeFactor f) = [RandomizeFactor_field]"
| "assigns (with_Initial d) = [InitialInterval_field]"
| "assigns (with_Max d) = [MaxInterval_field]"
| "assigns (with_MaxTime d) = [MaxElapsedTime_field]"
| "assigns (with_Tries n) = [MaxRetries_field]"
| "assigns (with_Multiplier f) = [Multiplier_field]"
| "assigns (with_Jitter f) = [RandomizeFactor_field]"
| "assigns with_NoJitter = [RandomizeFactor_field]"
| "assigns with_Forever = [MaxRetries_field]"
| "assigns (with_Exponential f) = [Multiplier_field, RandomizeFactor_field]"
| "assigns with_Linear = [Multiplier_field, RandomizeFactor_field]"
| "assigns with_Database =
     [InitialInterval_field, MaxInterval_field, MaxRetries_field, Multiplier_field,
      RandomizeFactor_field, MaxElapsedTime_field]"
| "assigns (with_Timeout d) = [MaxElapsedTime_field, MaxRetries_field]"
| "assigns preset =
     [InitialInterval_field, MaxInterval_field, MaxRetries_field, Multiplier_field,
      RandomizeFactor_field]"

section \<open>Reading a run\<close>

text \<open>
  \<open>alternates\<close> holds of a list of events that is an invocation, or a failed
  invocation, one sleep, and again such a list: it starts with an invocation, ends with
  one, and every sleep stands between a failed invocation and the next invocation.
\<close>

fun alternates :: "event list \<Rightarrow> bool" where
  "alternates [Invoked r] = True"
| "alternates (Invoked (Some e) # Slept d # evs) = alternates evs"
| "alternates evs = False"

text \<open>
  \<open>scheduled fn config currentInterval w evs\<close>: the events \<open>evs\<close> are those of the loop
  started in the world \<open>w\<close> with the interval \<open>currentInterval\<close>. Each invocation has
  the result \<open>fn\<close> gives in the world reached; the sleep after a failed invocation is
  the interval current in that round (line 108); the interval of the round after it is
  what lines 100-106 compute after that failure, with the draw of the world's random
  source (line 109).
\<close>

fun scheduled :: "'u operation \<Rightarrow> RetryConfig \<Rightarrow> duration \<Rightarrow> 'u world \<Rightarrow> event list \<Rightarrow> bool" where
  "scheduled fn config currentInterval w (Invoked r # Slept d # evs) =
     (case fn w of
        (r', w1) \<Rightarrow>
          r' = r \<and> d = currentInterval
          \<and> (case newInterval config currentInterval w1 of
                (nextInterval, w2) \<Rightarrow>
                  scheduled fn config nextInterval (Sleep currentInterval w2) evs))"
| "scheduled fn config currentInterval w [Invoked r] = (fst (fn w) = r)"
| "scheduled fn config currentInterval w evs = False"

text \<open>
  What a run returns for the result of its last invocation: \<open>nil\<close> for \<open>nil\<close>, the
  wrapped error of the marker for an error the inspection \<open>asPermanent\<close> recognises,
  and the error itself otherwise.
\<close>

definition outcome :: "(error \<Rightarrow> error option) \<Rightarrow> error option \<Rightarrow> error option" where
  "outcome asPermanent r =
     (case r of
        None \<Rightarrow> None
      | Some e \<Rightarrow> (case asPermanent e of Some cause \<Rightarrow> Some cause | None \<Rightarrow> Some e))"

text \<open>
  The lines \<open>"Attempt N failed: <error>"\<close> for the failed ones among the invocations
  numbered from \<open>n\<close>.
\<close>

fun failure_lines :: "int \<Rightarrow> error option list \<Rightarrow> string list" where
  "failure_lines n [] = []"
| "failure_lines n (None # rs) = failure_lines (n + 1) rs"
| "failure_lines n (Some e # rs) =
     (''Attempt '' @ Itoa n @ '' failed: '' @ Error e) # failure_lines (n + 1) rs"

text \<open>The attempt every iteration starts with.\<close>

definition firstAttempt :: Attempt where
  "firstAttempt =
     \<lparr>Number = 1, Delay = 0, Elapsed = 0, LastError = None, Context = Background_ctx\<rparr>"

text \<open>
  The states of the variables of \<open>DoWithAttempts\<close>: while the loop \<open>running\<close>, nothing
  has been returned, every call of the callback so far failed with an error that has no
  marker, and \<open>finalErr\<close> is the error of the last call; once the body has \<open>stopped\<close>
  the loop, the value to return is the outcome of the last call.
\<close>

fun retryable :: "error option \<Rightarrow> bool" where
  "retryable None = False"
| "retryable (Some e) = (As_permanentError e = None)"



section \<open>Operations of the tests\<close>

text \<open>
  The tests retry closures that count their calls in a captured variable. Here that
  variable is the caller's part of the world; the clock starts at 0 and the random
  source returns 0 at every draw.
\<close>

definition testWorld :: "nat world" where
  "testWorld = \<lparr>clock = 0, draws = (\<lambda>n. 0), drawn = 0, user = 0\<rparr>"

definition failsTwice :: "nat operation" where
  \<comment> \<open>\<open>attempts++; if attempts < 3 { return errors.New("temporary error") }; return nil\<close>\<close>
  "failsTwice w =
     (let attempts = Suc (user w) in
      (if attempts < 3 then Some (New ''temporary error'') else None, w\<lparr>user := attempts\<rparr>))"

definition failsTwiceNumbered :: "nat operation" where
  \<comment> \<open>as above with \<open>fmt.Errorf("attempt %d failed", attempts)\<close>\<close>
  "failsTwiceNumbered w =
     (let attempts = Suc (user w) in
      (if attempts < 3 then Some (New (''attempt '' @ Itoa (int attempts) @ '' failed'')) else None,
       w\<lparr>user := attempts\<rparr>))"

definition alwaysFails :: "error \<Rightarrow> nat operation" where
  \<comment> \<open>\<open>attempts++; return err\<close>\<close>
  "alwaysFails e w = (Some e, w\<lparr>user := Suc (user w)\<rparr>)"


definition breakAtOnce :: "nat yield" where
  \<comment> \<open>a loop body that is \<open>attempts++; break\<close>\<close>
  "breakAtOnce attempt w = (False, w\<lparr>user := Suc (user w)\<rparr>)"

section \<open>The loop of \<open>Retry\<close>\<close>

text \<open>
  The lemmas of this section hold for the loop with any inspection \<open>asPermanent\<close>,
  hence for both revisions of \<open>Retry\<close>.
\<close>

lemma map_option_after_eq:
  "map_option (after evs) x = Some res \<longleftrightarrow> (\<exists>r. x = Some r \<and> res = after evs r)"
  by (cases x) auto

lemma trace_after [simp]: "trace (after evs r) = evs @ trace r"
  by (simp add: after_def)

lemma err_after [simp]: "err (after evs r) = err r"
  by (simp add: after_def)

lemma final_after [simp]: "final (after evs r) = final r"
  by (simp add: after_def)

lemma Retry_loop_alternates:
  "Retry_loop rounds chk fn c st a cur w = Some res \<Longrightarrow> alternates (trace res)"
proof (induction rounds arbitrary: a cur w res)
  case 0
  then show ?case by simp
next
  case (Suc rounds)
  then show ?case
    by (auto split: prod.splits option.splits if_splits simp: Let_def map_option_after_eq)
qed

lemma Retry_loop_count:
  "MaxRetries c > 0 \<Longrightarrow> Retry_loop rounds chk fn c st a cur w = Some res \<Longrightarrow>
   int (length (invocations (trace res))) \<le> max 1 (MaxRetries c - a)"
proof (induction rounds arbitrary: a cur w res)
  case 0
  then show ?case by simp
next
  case (Suc rounds)
  show ?case
  proof (cases "fn w")
    case (Pair r w1)
    show ?thesis
    proof (cases r)
      case None
      with Pair Suc.prems show ?thesis by auto
    next
      case (Some e)
      show ?thesis
      proof (cases "chk e")
        case (Some cause)
        with Pair \<open>r = Some e\<close> Suc.prems show ?thesis by auto
      next
        case None
        show ?thesis
        proof (cases "a + 1 \<ge> MaxRetries c \<or> (MaxElapsedTime c > 0 \<and> clock w1 - st \<ge> MaxElapsedTime c)")
          case True
          with Pair \<open>r = Some e\<close> None Suc.prems show ?thesis by (auto simp: Let_def split: if_splits)
        next
          case False
          obtain nxt w2 where nx: "newInterval c cur w1 = (nxt, w2)" by (cases "newInterval c cur w1")
          from False Pair \<open>r = Some e\<close> None Suc.prems(2) nx Suc.prems(1)
          obtain r' where r': "Retry_loop rounds chk fn c st (a + 1) nxt (Sleep cur w2) = Some r'"
            and res: "res = after [Invoked (Some e), Slept cur] r'"
            by (auto simp: Let_def map_option_after_eq)
          from Suc.IH[OF Suc.prems(1) r'] have "int (length (invocations (trace r'))) \<le> max 1 (MaxRetries c - (a + 1))" .
          with False res show ?thesis by auto
        qed
      qed
    qed
  qed
qed

lemma Retry_loop_returns:
  "MaxRetries c > 0 \<Longrightarrow> 0 < rounds \<Longrightarrow> nat (MaxRetries c - a) \<le> rounds \<Longrightarrow>
   \<exists>res. Retry_loop rounds chk fn c st a cur w = Some res"
proof (induction rounds arbitrary: a cur w)
  case 0
  then show ?case by simp
next
  case (Suc rounds)
  show ?case
  proof (cases "fn w")
    case (Pair r w1)
    show ?thesis
    proof (cases r)
      case None
      with Pair show ?thesis by auto
    next
      case (Some e)
      show ?thesis
      proof (cases "chk e")
        case (Some cause)
        with Pair \<open>r = Some e\<close> show ?thesis by auto
      next
        case None
        show ?thesis
        proof (cases "a + 1 \<ge> MaxRetries c \<or> (MaxElapsedTime c > 0 \<and> clock w1 - st \<ge> MaxElapsedTime c)")
          case True
          with Pair \<open>r = Some e\<close> None Suc.prems show ?thesis by (auto simp: Let_def split: if_splits)
        next
          case False
          obtain nxt w2 where nx: "newInterval c cur w1 = (nxt, w2)" by (cases "newInterval c cur w1")
          from False Suc.prems have "0 < rounds" "nat (MaxRetries c - (a + 1)) \<le> rounds" by auto
          from Suc.IH[OF Suc.prems(1) this]
          obtain r' where "Retry_loop rounds chk fn c st (a + 1) nxt (Sleep cur w2) = Some r'" by blast
          with False Pair \<open>r = Some e\<close> None nx Suc.prems(1) show ?thesis by (auto simp: Let_def)
        qed
      qed
    qed
  qed
qed

lemma Retry_loop_outcome:
  "Retry_loop rounds chk fn c st a cur w = Some res \<Longrightarrow>
   invocations (trace res) \<noteq> [] \<and>
   err res = outcome chk (last (invocations (trace res))) \<and>
   (\<forall>x \<in> set (butlast (invocations (trace res))). \<exists>e. x = Some e \<and> chk e = None)"
proof (induction rounds arbitrary: a cur w res)
  case 0
  then show ?case by simp
next
  case (Suc rounds)
  then show ?case
    by (fastforce split: prod.splits option.splits if_splits simp: Let_def map_option_after_eq outcome_def)
qed

lemma Retry_loop_first_sleep:
  assumes "Retry_loop rounds chk fn c st a cur w = Some res"
  shows "sleeps (trace res) = [] \<or> (\<exists>ds. sleeps (trace res) = cur # ds)"
proof (cases rounds)
  case 0
  with assms show ?thesis by simp
next
  case (Suc n)
  with assms show ?thesis
    by (auto split: prod.splits option.splits if_splits simp: Let_def map_option_after_eq)
qed

lemma Retry_loop_scheduled:
  "Retry_loop rounds chk fn c st a cur w = Some res \<Longrightarrow> scheduled fn c cur w (trace res)"
proof (induction rounds arbitrary: a cur w res)
  case 0
  then show ?case by simp
next
  case (Suc rounds)
  obtain r w1 where f: "fn w = (r, w1)" by (cases "fn w")
  obtain nxt w2 where nx: "newInterval c cur w1 = (nxt, w2)" by (cases "newInterval c cur w1")
  show ?case
  proof (cases "\<exists>r'. res = after [Invoked r, Slept cur] r'
                     \<and> Retry_loop rounds chk fn c st (a + 1) nxt (Sleep cur w2) = Some r'")
    case True
    then obtain r' where res: "res = after [Invoked r, Slept cur] r'"
      and r': "Retry_loop rounds chk fn c st (a + 1) nxt (Sleep cur w2) = Some r'"
      by blast
    from Suc.IH[OF r'] f nx res show ?thesis by simp
  next
    case False
    with Suc.prems f nx have "trace res = [Invoked r]"
      by (auto split: option.splits if_splits simp: Let_def map_option_after_eq)
    with f show ?thesis by simp
  qed
qed

lemma Retry_loop_round:
  "fn w = (Some e, w1) \<Longrightarrow> asPermanent e = None \<Longrightarrow>
   \<not> (0 < MaxRetries config \<and> MaxRetries config \<le> attempts + 1) \<Longrightarrow>
   \<not> (0 < MaxElapsedTime config \<and> MaxElapsedTime config \<le> clock w1 - startTime) \<Longrightarrow>
   newInterval config currentInterval w1 = (nextInterval, w2) \<Longrightarrow>
   Retry_loop (Suc rounds) asPermanent fn config startTime attempts currentInterval w =
     map_option (after [Invoked (Some e), Slept currentInterval])
       (Retry_loop rounds asPermanent fn config startTime (attempts + 1) nextInterval
          (Sleep currentInterval w2))"
  by (auto simp: Let_def)

lemma after_after: "after evs (after evs' r) = after (evs @ evs') r"
  by (simp add: after_def)

lemma Retry_loop_sleeps_no_jitter:
  "RandomizeFactor c \<le> 0 \<Longrightarrow> Retry_loop rounds chk fn c st a cur w = Some res \<Longrightarrow>
   sleeps (trace res) = map (\<lambda>k. (grown c ^^ k) cur) [0..<length (sleeps (trace res))]"
proof (induction rounds arbitrary: a cur w res)
  case 0
  then show ?case by simp
next
  case (Suc rounds)
  show ?case
  proof (cases "sleeps (trace res) = []")
    case True
    then show ?thesis by simp
  next
    case False
    with Suc.prems obtain e w1 nxt w2 r' where
      nx: "newInterval c cur w1 = (nxt, w2)" and
      r': "Retry_loop rounds chk fn c st (a + 1) nxt (Sleep cur w2) = Some r'" and
      res: "res = after [Invoked (Some e), Slept cur] r'"
      by (auto split: prod.splits option.splits if_splits simp: Let_def map_option_after_eq)
    from nx Suc.prems(1) have nxt: "nxt = grown c cur"
      by (auto simp: newInterval_def Let_def)
    let ?n = "length (sleeps (trace r'))"
    from Suc.IH[OF Suc.prems(1) r'] nxt
    have ih: "sleeps (trace r') = map (\<lambda>k. (grown c ^^ k) (grown c cur)) [0..<?n]" by simp
    have "map (\<lambda>k. (grown c ^^ k) cur) [0..<Suc ?n] = cur # map (\<lambda>k. (grown c ^^ k) (grown c cur)) [0..<?n]"
      by (simp add: upt_conv_Cons map_Suc_upt[symmetric] funpow_swap1 del: upt_Suc)
    with ih res show ?thesis by simp
  qed
qed

lemma As_permanentError_chain:
  "(As_permanentError e \<noteq> None) = (\<exists>m \<in> set (chain e). is_permanentError m)"
  by (induction e) auto

lemma As_permanentError_cause:
  "As_permanentError e = Some cause \<Longrightarrow> permanentError cause \<in> set (chain e)"
  by (induction e) auto

lemma Retry_unfold:
  "Retry rounds fn opts w =
     Retry_loop rounds As_permanentError fn (newConfig opts) (clock w) 0 (InitialInterval (newConfig opts)) w"
  by (simp add: Retry_def Let_def)

lemma Retry_prev_unfold:
  "Retry_prev rounds fn opts w =
     Retry_loop rounds (\<lambda>e. None) fn (newConfig opts) (clock w) 0 (InitialInterval (newConfig opts)) w"
  by (simp add: Retry_prev_def Let_def)

lemma Retry_loop_stops_at_cap:
  "fn w = (Some e, w1) \<Longrightarrow> asPermanent e = None \<Longrightarrow>
   (0 < MaxRetries config \<and> MaxRetries config \<le> attempts + 1)
   \<or> (0 < MaxElapsedTime config \<and> MaxElapsedTime config \<le> clock w1 - startTime) \<Longrightarrow>
   Retry_loop (Suc rounds) asPermanent fn config startTime attempts currentInterval w =
     Some \<lparr>err = Some e, trace = [Invoked (Some e)], final = w1\<rparr>"
  by (auto simp: Let_def)

section \<open>Permanent errors\<close>

text \<open>
  C1. In \<open>Retry\<close> (the revision that inspects errors), an invocation that returns an
  error whose chain holds the \<open>permanentError\<close> marker ends the run: at any round of the
  loop the run returns at once, with the error the marker wraps and no further
  invocation; when this happens at the first attempt the operation has been invoked
  exactly once. In every run that returns, no invocation but the last returned such an
  error, and if the last one did, the run returns the wrapped error. The inspection
  succeeds exactly when the chain \<open>err, Unwrap(err), ...\<close> holds a marker, and what it
  gives is wrapped by a marker of that chain.
\<close>

theorem Retry_permanentError:
  fixes fn :: "'u operation"
  shows
  "(\<forall>rounds config startTime attempts currentInterval w e w1 cause.
      fn w = (Some e, w1) \<longrightarrow> As_permanentError e = Some cause \<longrightarrow>
      Retry_loop (Suc rounds) As_permanentError fn config startTime attempts currentInterval w =
        Some \<lparr>err = Some cause, trace = [Invoked (Some e)], final = w1\<rparr>)
   \<and> (\<forall>rounds opts w e w1 cause.
      fn w = (Some e, w1) \<longrightarrow> As_permanentError e = Some cause \<longrightarrow>
      Retry (Suc rounds) fn opts w =
        Some \<lparr>err = Some cause, trace = [Invoked (Some e)], final = w1\<rparr>)
   \<and> (\<forall>rounds opts w res.
      Retry rounds fn opts w = Some res \<longrightarrow>
      (\<forall>r \<in> set (butlast (invocations (trace res))). \<exists>e. r = Some e \<and> As_permanentError e = None)
      \<and> (\<forall>e cause. last (invocations (trace res)) = Some e \<and> As_permanentError e = Some cause
             \<longrightarrow> err res = Some cause))
   \<and> (\<forall>e. (As_permanentError e \<noteq> None) = (\<exists>m \<in> set (chain e). is_permanentError m))
   \<and> (\<forall>e cause. As_permanentError e = Some cause \<longrightarrow> permanentError cause \<in> set (chain e))"
proof -
  have loop: "Retry_loop (Suc rounds) As_permanentError fn config startTime attempts currentInterval w =
        Some \<lparr>err = Some cause, trace = [Invoked (Some e)], final = w1\<rparr>"
    if "fn w = (Some e, w1)" "As_permanentError e = Some cause"
    for rounds config startTime attempts currentInterval w e w1 cause
    using that by simp
  have first: "Retry (Suc rounds) fn opts w =
        Some \<lparr>err = Some cause, trace = [Invoked (Some e)], final = w1\<rparr>"
    if "fn w = (Some e, w1)" "As_permanentError e = Some cause" for rounds opts w e w1 cause
    using that by (simp add: Retry_def Let_def)
  have run: "(\<forall>r \<in> set (butlast (invocations (trace res))). \<exists>e. r = Some e \<and> As_permanentError e = None)
      \<and> (\<forall>e cause. last (invocations (trace res)) = Some e \<and> As_permanentError e = Some cause
             \<longrightarrow> err res = Some cause)"
    if r: "Retry rounds fn opts w = Some res" for rounds opts w res
  proof -
    from r have l: "Retry_loop rounds As_permanentError fn (newConfig opts) (clock w) 0
                  (InitialInterval (newConfig opts)) w = Some res"
      by (simp add: Retry_def Let_def)
    from Retry_loop_outcome[OF l] show ?thesis
      by (auto simp: outcome_def)
  qed
  from loop first run As_permanentError_chain As_permanentError_cause
  show ?thesis by blast
qed

theorem Retry_permanentError_witness:
  "Retry 1 (alwaysFails (Wrap ''query: non-retryable error: denied'' (permanentError (New ''denied''))))
     [Tries 5] testWorld =
     Some \<lparr>err = Some (New ''denied''),
           trace = [Invoked (Some (Wrap ''query: non-retryable error: denied'' (permanentError (New ''denied''))))],
           final = testWorld\<lparr>user := 1\<rparr>\<rparr>"
proof -
  let ?e = "Wrap ''query: non-retryable error: denied'' (permanentError (New ''denied''))"
  have 1: "alwaysFails ?e testWorld = (Some ?e, testWorld\<lparr>user := 1\<rparr>)"
    by (simp add: alwaysFails_def testWorld_def)
  have 2: "As_permanentError ?e = Some (New ''denied'')"
    by simp
  from Retry_permanentError[of "alwaysFails ?e", THEN conjunct2, THEN conjunct1, rule_format, OF 1 2, of 0 "[Tries 5]"]
  show ?thesis by simp
qed

text \<open>
  The earlier revision (retry.go:68-110) has no inspection: it counts an error that
  carries the marker like any other, sleeps and invokes the operation again, and in the
  end returns the error with its marker.
\<close>

lemma Retry_prev_retries_permanentError:
  "Retry_prev 2 (alwaysFails (permanentError (New ''denied''))) [Tries 2] testWorld =
     Some \<lparr>err = Some (permanentError (New ''denied'')),
           trace = [Invoked (Some (permanentError (New ''denied''))), Slept 500000000,
                    Invoked (Some (permanentError (New ''denied'')))],
           final = testWorld\<lparr>clock := 500000000, drawn := 1, user := 2\<rparr>\<rparr>"
  by (simp add: Retry_prev_def newConfig_def applyOptions_def defaultConfig_def Tries_def
      numeral_2_eq_2 alwaysFails_def testWorld_def newInterval_def Float64_def grown_def raw_def
      jittered_def Duration_def Sleep_def after_def Millisecond_def Second_def Minute_def)

section \<open>The attempt cap and the time cap\<close>

text \<open>
  C2. With \<open>MaxRetries = n > 0\<close>, a run of \<open>Retry\<close> (either revision) that returns has
  invoked the operation at most \<open>n\<close> times, and \<open>n\<close> rounds are enough for the run to
  return. At any round of the loop, a failed attempt that brings the counter to \<open>n\<close>
  or more (\<open>attempts >= MaxRetries\<close>), or after which the time since the start is
  \<open>MaxElapsedTime > 0\<close> or more, ends the run at once with that attempt's error: no
  sleep and no further invocation follow.
\<close>

theorem Retry_attempt_cap:
  fixes fn :: "'u operation"
  assumes n: "MaxRetries (newConfig opts) = n" "0 < n"
  shows
  "(\<forall>rounds res. Retry rounds fn opts w = Some res \<or> Retry_prev rounds fn opts w = Some res \<longrightarrow>
      int (length (invocations (trace res))) \<le> n)
   \<and> (\<forall>rounds. nat n \<le> rounds \<longrightarrow>
        (\<exists>res. Retry rounds fn opts w = Some res) \<and> (\<exists>res. Retry_prev rounds fn opts w = Some res))
   \<and> (\<forall>asPermanent rounds startTime attempts currentInterval v e v1.
        fn v = (Some e, v1) \<longrightarrow> asPermanent e = None \<longrightarrow>
        n \<le> attempts + 1
        \<or> (0 < MaxElapsedTime (newConfig opts)
            \<and> MaxElapsedTime (newConfig opts) \<le> clock v1 - startTime) \<longrightarrow>
        Retry_loop (Suc rounds) asPermanent fn (newConfig opts) startTime attempts currentInterval v =
          Some \<lparr>err = Some e, trace = [Invoked (Some e)], final = v1\<rparr>)"
proof -
  let ?c = "newConfig opts"
  have count: "int (length (invocations (trace res))) \<le> n"
    if "Retry rounds fn opts w = Some res \<or> Retry_prev rounds fn opts w = Some res" for rounds res
  proof -
    from that obtain chk where "Retry_loop rounds chk fn ?c (clock w) 0 (InitialInterval ?c) w = Some res"
      unfolding Retry_unfold Retry_prev_unfold by blast
    from Retry_loop_count[OF _ this] n show ?thesis by simp
  qed
  have returns: "(\<exists>res. Retry rounds fn opts w = Some res) \<and> (\<exists>res. Retry_prev rounds fn opts w = Some res)"
    if "nat n \<le> rounds" for rounds
  proof -
    from that n have "0 < MaxRetries ?c" "0 < rounds" "nat (MaxRetries ?c - 0) \<le> rounds" by auto
    from Retry_loop_returns[OF this] show ?thesis
      unfolding Retry_unfold Retry_prev_unfold by blast
  qed
  have stop: "Retry_loop (Suc rounds) asPermanent fn ?c startTime attempts currentInterval v =
          Some \<lparr>err = Some e, trace = [Invoked (Some e)], final = v1\<rparr>"
    if "fn v = (Some e, v1)" "asPermanent e = None"
       "n \<le> attempts + 1 \<or> (0 < MaxElapsedTime ?c \<and> MaxElapsedTime ?c \<le> clock v1 - startTime)"
    for asPermanent rounds startTime attempts currentInterval v e v1
    using that n by (intro Retry_loop_stops_at_cap) auto
  show ?thesis
  proof (intro conjI allI impI)
    fix rounds res
    assume "Retry rounds fn opts w = Some res \<or> Retry_prev rounds fn opts w = Some res"
    then show "int (length (invocations (trace res))) \<le> n" by (rule count)
  next
    fix rounds assume "nat n \<le> rounds"
    from returns[OF this] show "\<exists>res. Retry rounds fn opts w = Some res" ..
  next
    fix rounds assume "nat n \<le> rounds"
    from returns[OF this] show "\<exists>res. Retry_prev rounds fn opts w = Some res" ..
  next
    fix asPermanent :: "error \<Rightarrow> error option"
    fix rounds startTime attempts currentInterval and v :: "'u world" and e v1
    assume "fn v = (Some e, v1)" "asPermanent e = None"
       "n \<le> attempts + 1 \<or> (0 < MaxElapsedTime ?c \<and> MaxElapsedTime ?c \<le> clock v1 - startTime)"
    then show "Retry_loop (Suc rounds) asPermanent fn ?c startTime attempts currentInterval v =
          Some \<lparr>err = Some e, trace = [Invoked (Some e)], final = v1\<rparr>" by (rule stop)
  qed
qed

theorem Retry_attempt_cap_witness:
  "MaxRetries (newConfig [Tries 2, Initial (10 * Millisecond)]) = 2 \<and> (0::int) < 2
   \<and> Retry 2 (alwaysFails (New ''always fail'')) [Tries 2, Initial (10 * Millisecond)] testWorld =
       Some \<lparr>err = Some (New ''always fail''),
             trace = [Invoked (Some (New ''always fail'')), Slept 10000000,
                      Invoked (Some (New ''always fail''))],
             final = testWorld\<lparr>clock := 10000000, drawn := 1, user := 2\<rparr>\<rparr>
   \<and> int (length (invocations [Invoked (Some (New ''always fail'')), Slept 10000000,
                      Invoked (Some (New ''always fail''))])) \<le> 2"
proof -
  have n: "MaxRetries (newConfig [Tries 2, Initial (10 * Millisecond)]) = 2"
    by (simp add: newConfig_def applyOptions_def Tries_def Initial_def)
  have run: "Retry 2 (alwaysFails (New ''always fail'')) [Tries 2, Initial (10 * Millisecond)] testWorld =
       Some \<lparr>err = Some (New ''always fail''),
             trace = [Invoked (Some (New ''always fail'')), Slept 10000000,
                      Invoked (Some (New ''always fail''))],
             final = testWorld\<lparr>clock := 10000000, drawn := 1, user := 2\<rparr>\<rparr>"
    by (simp add: Retry_def newConfig_def applyOptions_def defaultConfig_def Tries_def Initial_def
        numeral_2_eq_2 alwaysFails_def testWorld_def newInterval_def Float64_def grown_def raw_def
        jittered_def Duration_def Sleep_def after_def Millisecond_def Second_def Minute_def)
  from Retry_attempt_cap[OF n, THEN conjunct1, rule_format, of 2 "alwaysFails (New ''always fail'')" testWorld] run n
  show ?thesis by simp
qed

section \<open>When \<open>Retry\<close> sleeps\<close>

text \<open>
  C3, as stated: the delay slept before attempt \<open>N\<close> is the delay computed after the
  failure of attempt \<open>N-1\<close>. In the claim's own scenario (either revision of \<open>Retry\<close>)
  the interval that lines 100-106 compute after the failure of attempt 1 is 20ms,
  while the sleep before attempt 2 is 10ms, the initial interval: line 108 sleeps
  \<open>currentInterval\<close>, and the interval just computed becomes current only on line 109,
  for the round after.
\<close>

theorem Retry_sleeps_current_interval_counterexample:
  "Retry_prev 3 failsTwice
     [WithInitialInterval (10 * Millisecond), WithMaxRetries 3, WithMultiplier 2.0,
         WithRandomizeFactor 0] testWorld =
       Some \<lparr>err = None,
             trace = [Invoked (Some (New ''temporary error'')), Slept (10 * Millisecond),
                      Invoked (Some (New ''temporary error'')), Slept (20 * Millisecond),
                      Invoked None],
             final = testWorld\<lparr>clock := 30 * Millisecond, user := 3\<rparr>\<rparr>
   \<and> Retry 3 failsTwice [Initial (10 * Millisecond), Tries 3, Multiplier_opt 2.0, Jitter 0] testWorld =
       Some \<lparr>err = None,
             trace = [Invoked (Some (New ''temporary error'')), Slept (10 * Millisecond),
                      Invoked (Some (New ''temporary error'')), Slept (20 * Millisecond),
                      Invoked None],
             final = testWorld\<lparr>clock := 30 * Millisecond, user := 3\<rparr>\<rparr>
   \<and> failsTwice testWorld = (Some (New ''temporary error''), testWorld\<lparr>user := 1\<rparr>)
   \<and> InitialInterval (newConfig [Initial (10 * Millisecond), Tries 3, Multiplier_opt 2.0, Jitter 0]) = 10 * Millisecond
   \<and> newInterval (newConfig [Initial (10 * Millisecond), Tries 3, Multiplier_opt 2.0, Jitter 0])
        (10 * Millisecond) (testWorld\<lparr>user := 1\<rparr>) =
       (20 * Millisecond, testWorld\<lparr>user := 1\<rparr>)
   \<and> newInterval
        (newConfig [WithInitialInterval (10 * Millisecond), WithMaxRetries 3, WithMultiplier 2.0,
         WithRandomizeFactor 0])
        (10 * Millisecond) (testWorld\<lparr>user := 1\<rparr>) =
       (20 * Millisecond, testWorld\<lparr>user := 1\<rparr>)
   \<and> 10 * Millisecond \<noteq> 20 * Millisecond"
  by (simp add: Retry_def Retry_prev_def newConfig_def applyOptions_def defaultConfig_def Tries_def
      Initial_def Multiplier_opt_def Jitter_def WithInitialInterval_def WithMaxRetries_def
      WithMultiplier_def WithRandomizeFactor_def numeral_3_eq_3 failsTwice_def testWorld_def
      newInterval_def grown_def raw_def Duration_def Sleep_def after_def Millisecond_def
      Second_def Minute_def)

text \<open>
  C3, amended. A run of \<open>Retry\<close> (either revision) starts with an invocation, not with
  a sleep, and every sleep stands between a failed attempt and the next attempt. The
  sleep before attempt 2 is the initial interval. The sleep of each round is the
  interval current in that round, and the interval lines 100-106 compute after a
  failure, with the draw the random source gives then, is the current interval of the
  round after (\<open>scheduled\<close>): computed after the failure of attempt \<open>N-2\<close>, it is slept
  after the failure of attempt \<open>N-1\<close>, before attempt \<open>N\<close>. The second part states this
  for two consecutive failed rounds of the loop, at any point of a run and for any
  number of rounds left. Without jitter the sleeps are the initial interval grown 0,
  1, 2, ... times. With an initial interval of 10ms, at most 3 attempts, multiplier
  2.0 and no jitter, an operation that fails twice and then succeeds is invoked
  exactly 3 times, with sleeps of 10ms before attempt 2 and 20ms before attempt 3, and
  \<open>Retry\<close> returns \<open>nil\<close>, in both revisions.
\<close>

theorem Retry_delays:
  fixes fn :: "'u operation"
  shows
  "(\<forall>rounds opts w res.
      Retry rounds fn opts w = Some res \<or> Retry_prev rounds fn opts w = Some res \<longrightarrow>
      (\<exists>r evs. trace res = Invoked r # evs)
      \<and> alternates (trace res)
      \<and> (sleeps (trace res) = []
          \<or> (\<exists>ds. sleeps (trace res) = InitialInterval (newConfig opts) # ds))
      \<and> scheduled fn (newConfig opts) (InitialInterval (newConfig opts)) w (trace res)
      \<and> (RandomizeFactor (newConfig opts) \<le> 0 \<longrightarrow>
           sleeps (trace res) =
             map (\<lambda>k. (grown (newConfig opts) ^^ k) (InitialInterval (newConfig opts)))
               [0..<length (sleeps (trace res))]))
   \<and> (\<forall>asPermanent rounds config startTime attempts currentInterval w e w1 nextInterval w2 e' w3.
      fn w = (Some e, w1) \<longrightarrow> asPermanent e = None \<longrightarrow>
      \<not> (0 < MaxRetries config \<and> MaxRetries config \<le> attempts + 1) \<longrightarrow>
      \<not> (0 < MaxElapsedTime config \<and> MaxElapsedTime config \<le> clock w1 - startTime) \<longrightarrow>
      newInterval config currentInterval w1 = (nextInterval, w2) \<longrightarrow>
      fn (Sleep currentInterval w2) = (Some e', w3) \<longrightarrow> asPermanent e' = None \<longrightarrow>
      \<not> (0 < MaxRetries config \<and> MaxRetries config \<le> attempts + 2) \<longrightarrow>
      \<not> (0 < MaxElapsedTime config \<and> MaxElapsedTime config \<le> clock w3 - startTime) \<longrightarrow>
      Retry_loop (Suc (Suc rounds)) asPermanent fn config startTime attempts currentInterval w =
        map_option (after [Invoked (Some e), Slept currentInterval,
                           Invoked (Some e'), Slept nextInterval])
          (Retry_loop rounds asPermanent fn config startTime (attempts + 2)
             (fst (newInterval config nextInterval w3))
             (Sleep nextInterval (snd (newInterval config nextInterval w3)))))
   \<and> Retry 3 failsTwice [Initial (10 * Millisecond), Tries 3, Multiplier_opt 2.0, Jitter 0] testWorld =
       Some \<lparr>err = None,
             trace = [Invoked (Some (New ''temporary error'')), Slept (10 * Millisecond),
                      Invoked (Some (New ''temporary error'')), Slept (20 * Millisecond),
                      Invoked None],
             final = testWorld\<lparr>clock := 30 * Millisecond, user := 3\<rparr>\<rparr>
   \<and> Retry_prev 3 failsTwice
        [WithInitialInterval (10 * Millisecond), WithMaxRetries 3, WithMultiplier 2.0,
         WithRandomizeFactor 0] testWorld =
       Some \<lparr>err = None,
             trace = [Invoked (Some (New ''temporary error'')), Slept (10 * Millisecond),
                      Invoked (Some (New ''temporary error'')), Slept (20 * Millisecond),
                      Invoked None],
             final = testWorld\<lparr>clock := 30 * Millisecond, user := 3\<rparr>\<rparr>"
proof (intro conjI allI impI)
  fix rounds opts and w :: "'u world" and res
  assume run: "Retry rounds fn opts w = Some res \<or> Retry_prev rounds fn opts w = Some res"
  let ?c = "newConfig opts"
  from run obtain chk where
    l: "Retry_loop rounds chk fn ?c (clock w) 0 (InitialInterval ?c) w = Some res"
    unfolding Retry_unfold Retry_prev_unfold by blast
  show alt: "alternates (trace res)" by (rule Retry_loop_alternates[OF l])
  then show "\<exists>r evs. trace res = Invoked r # evs"
    by (cases "trace res" rule: alternates.cases) auto
  show "sleeps (trace res) = [] \<or> (\<exists>ds. sleeps (trace res) = InitialInterval ?c # ds)"
    by (rule Retry_loop_first_sleep[OF l])
  show "scheduled fn ?c (InitialInterval ?c) w (trace res)"
    by (rule Retry_loop_scheduled[OF l])
  assume "RandomizeFactor ?c \<le> 0"
  then show "sleeps (trace res) =
      map (\<lambda>k. (grown ?c ^^ k) (InitialInterval ?c)) [0..<length (sleeps (trace res))]"
    by (rule Retry_loop_sleeps_no_jitter[OF _ l])
next
  fix asPermanent :: "error \<Rightarrow> error option" and rounds config startTime attempts currentInterval
    and w :: "'u world" and e w1 nextInterval w2 e' w3
  assume f1: "fn w = (Some e, w1)" and p1: "asPermanent e = None"
    and n1: "\<not> (0 < MaxRetries config \<and> MaxRetries config \<le> attempts + 1)"
    and t1: "\<not> (0 < MaxElapsedTime config \<and> MaxElapsedTime config \<le> clock w1 - startTime)"
    and nx: "newInterval config currentInterval w1 = (nextInterval, w2)"
    and f2: "fn (Sleep currentInterval w2) = (Some e', w3)" and p2: "asPermanent e' = None"
    and n2: "\<not> (0 < MaxRetries config \<and> MaxRetries config \<le> attempts + 2)"
    and t2: "\<not> (0 < MaxElapsedTime config \<and> MaxElapsedTime config \<le> clock w3 - startTime)"
  from n2 have n2': "\<not> (0 < MaxRetries config \<and> MaxRetries config \<le> attempts + 1 + 1)"
    by arith
  have nx2: "newInterval config nextInterval w3 =
      (fst (newInterval config nextInterval w3), snd (newInterval config nextInterval w3))"
    by simp
  have two: "attempts + 1 + 1 = attempts + 2" by simp
  show "Retry_loop (Suc (Suc rounds)) asPermanent fn config startTime attempts currentInterval w =
        map_option (after [Invoked (Some e), Slept currentInterval,
                           Invoked (Some e'), Slept nextInterval])
          (Retry_loop rounds asPermanent fn config startTime (attempts + 2)
             (fst (newInterval config nextInterval w3))
             (Sleep nextInterval (snd (newInterval config nextInterval w3))))"
    unfolding Retry_loop_round[where fn = fn and asPermanent = asPermanent and rounds = "Suc rounds",
                OF f1 p1 n1 t1 nx]
      Retry_loop_round[where fn = fn and asPermanent = asPermanent and rounds = rounds,
                OF f2 p2 n2' t2 nx2] two
    by (simp add: option.map_comp comp_def after_after)
next
  show "Retry 3 failsTwice [Initial (10 * Millisecond), Tries 3, Multiplier_opt 2.0, Jitter 0] testWorld =
       Some \<lparr>err = None,
             trace = [Invoked (Some (New ''temporary error'')), Slept (10 * Millisecond),
                      Invoked (Some (New ''temporary error'')), Slept (20 * Millisecond),
                      Invoked None],
             final = testWorld\<lparr>clock := 30 * Millisecond, user := 3\<rparr>\<rparr>"
    by (simp add: Retry_def newConfig_def applyOptions_def defaultConfig_def Tries_def Initial_def
        Multiplier_opt_def Jitter_def numeral_3_eq_3 failsTwice_def testWorld_def newInterval_def
        grown_def raw_def Duration_def Sleep_def after_def Millisecond_def Second_def Minute_def)
next
  show "Retry_prev 3 failsTwice
        [WithInitialInterval (10 * Millisecond), WithMaxRetries 3, WithMultiplier 2.0,
         WithRandomizeFactor 0] testWorld =
       Some \<lparr>err = None,
             trace = [Invoked (Some (New ''temporary error'')), Slept (10 * Millisecond),
                      Invoked (Some (New ''temporary error'')), Slept (20 * Millisecond),
                      Invoked None],
             final = testWorld\<lparr>clock := 30 * Millisecond, user := 3\<rparr>\<rparr>"
    by (simp add: Retry_prev_def newConfig_def applyOptions_def defaultConfig_def
        WithInitialInterval_def WithMaxRetries_def WithMultiplier_def WithRandomizeFactor_def
        numeral_3_eq_3 failsTwice_def testWorld_def newInterval_def
        grown_def raw_def Duration_def Sleep_def after_def Millisecond_def Second_def Minute_def)
qed

theorem Retry_delays_witness:
  "Retry 3 failsTwice [Initial (10 * Millisecond), Tries 3, Multiplier_opt 2.0, Jitter 0] testWorld =
       Some \<lparr>err = None,
             trace = [Invoked (Some (New ''temporary error'')), Slept (10 * Millisecond),
                      Invoked (Some (New ''temporary error'')), Slept (20 * Millisecond),
                      Invoked None],
             final = testWorld\<lparr>clock := 30 * Millisecond, user := 3\<rparr>\<rparr>
   \<and> alternates [Invoked (Some (New ''temporary error'')), Slept (10 * Millisecond),
                      Invoked (Some (New ''temporary error'')), Slept (20 * Millisecond),
                      Invoked None]
   \<and> sleeps [Invoked (Some (New ''temporary error'')), Slept (10 * Millisecond),
                      Invoked (Some (New ''temporary error'')), Slept (20 * Millisecond),
                      Invoked None] = [10 * Millisecond, 20 * Millisecond]
   \<and> RandomizeFactor (newConfig [Initial (10 * Millisecond), Tries 3, Multiplier_opt 2.0, Jitter 0]) \<le> 0
   \<and> sleeps [Invoked (Some (New ''temporary error'')), Slept (10 * Millisecond),
                      Invoked (Some (New ''temporary error'')), Slept (20 * Millisecond),
                      Invoked None] =
       map (\<lambda>k. (grown (newConfig [Initial (10 * Millisecond), Tries 3, Multiplier_opt 2.0, Jitter 0]) ^^ k)
                  (10 * Millisecond))
         [0..<length (sleeps [Invoked (Some (New ''temporary error'')), Slept (10 * Millisecond),
                      Invoked (Some (New ''temporary error'')), Slept (20 * Millisecond),
                      Invoked None])]
   \<and> scheduled failsTwice (newConfig [Initial (10 * Millisecond), Tries 3, Multiplier_opt 2.0, Jitter 0])
        (10 * Millisecond) testWorld
        [Invoked (Some (New ''temporary error'')), Slept (10 * Millisecond),
                      Invoked (Some (New ''temporary error'')), Slept (20 * Millisecond),
                      Invoked None]
   \<and> failsTwice testWorld = (Some (New ''temporary error''), testWorld\<lparr>user := 1\<rparr>)
   \<and> newInterval (newConfig [Initial (10 * Millisecond), Tries 3, Multiplier_opt 2.0, Jitter 0])
        (10 * Millisecond) (testWorld\<lparr>user := 1\<rparr>) =
       (20 * Millisecond, testWorld\<lparr>user := 1\<rparr>)
   \<and> failsTwice (Sleep (10 * Millisecond) (testWorld\<lparr>user := 1\<rparr>)) =
       (Some (New ''temporary error''), testWorld\<lparr>clock := 10 * Millisecond, user := 2\<rparr>)
   \<and> Retry_loop (Suc (Suc 1)) As_permanentError failsTwice
        (newConfig [Initial (10 * Millisecond), Tries 3, Multiplier_opt 2.0, Jitter 0]) 0 0
        (10 * Millisecond) testWorld =
       map_option (after [Invoked (Some (New ''temporary error'')), Slept (10 * Millisecond),
                          Invoked (Some (New ''temporary error'')), Slept (20 * Millisecond)])
         (Retry_loop 1 As_permanentError failsTwice
            (newConfig [Initial (10 * Millisecond), Tries 3, Multiplier_opt 2.0, Jitter 0]) 0 2
            (40 * Millisecond)
            (Sleep (20 * Millisecond) (testWorld\<lparr>clock := 10 * Millisecond, user := 2\<rparr>)))"
proof -
  let ?opts = "[Initial (10 * Millisecond), Tries 3, Multiplier_opt 2.0, Jitter 0]"
  let ?c = "newConfig ?opts"
  let ?e = "New ''temporary error''"
  let ?tr = "[Invoked (Some (New ''temporary error'')), Slept (10 * Millisecond),
                      Invoked (Some (New ''temporary error'')), Slept (20 * Millisecond),
                      Invoked None]"
  let ?w1 = "testWorld\<lparr>user := 1\<rparr>"
  let ?w3 = "testWorld\<lparr>clock := 10 * Millisecond, user := 2\<rparr>"
  note t = Retry_delays[of failsTwice]
  from t have run: "Retry 3 failsTwice ?opts testWorld =
     Some \<lparr>err = None, trace = ?tr, final = testWorld\<lparr>clock := 30 * Millisecond, user := 3\<rparr>\<rparr>"
    by (rule conjunct2[THEN conjunct2, THEN conjunct1])
  have i: "InitialInterval ?c = 10 * Millisecond"
    by (simp add: newConfig_def applyOptions_def Initial_def Tries_def Multiplier_opt_def Jitter_def)
  note g = t[THEN conjunct1, rule_format, of 3 ?opts testWorld, OF disjI1, OF run, unfolded i]
  from g have alt: "alternates ?tr" by simp
  from g have sch: "scheduled failsTwice ?c (10 * Millisecond) testWorld ?tr"
    by (simp del: scheduled.simps)
  have sl: "sleeps ?tr = [10 * Millisecond, 20 * Millisecond]" by simp
  have rf: "RandomizeFactor ?c \<le> 0"
    by (simp add: newConfig_def applyOptions_def Initial_def Tries_def Multiplier_opt_def Jitter_def)
  from g rf have cf: "sleeps ?tr = map (\<lambda>k. (grown ?c ^^ k) (10 * Millisecond)) [0..<length (sleeps ?tr)]"
    by (simp del: scheduled.simps)
  note cfg = newConfig_def applyOptions_def defaultConfig_def Initial_def Tries_def
    Multiplier_opt_def Jitter_def
  have f1: "failsTwice testWorld = (Some ?e, ?w1)"
    by (simp add: failsTwice_def testWorld_def)
  have nx: "newInterval ?c (10 * Millisecond) ?w1 = (20 * Millisecond, ?w1)"
    by (simp add: cfg newInterval_def grown_def raw_def Duration_def Millisecond_def Second_def)
  have f2: "failsTwice (Sleep (10 * Millisecond) ?w1) = (Some ?e, ?w3)"
    by (simp add: failsTwice_def testWorld_def Sleep_def Millisecond_def)
  have nx2: "newInterval ?c (20 * Millisecond) ?w3 = (40 * Millisecond, ?w3)"
    by (simp add: cfg newInterval_def grown_def raw_def Duration_def Millisecond_def Second_def)
  have p: "As_permanentError ?e = None" by simp
  have n1: "\<not> (0 < MaxRetries ?c \<and> MaxRetries ?c \<le> 0 + 1)"
    and n2: "\<not> (0 < MaxRetries ?c \<and> MaxRetries ?c \<le> 0 + 2)"
    by (simp_all add: cfg)
  have t1: "\<not> (0 < MaxElapsedTime ?c \<and> MaxElapsedTime ?c \<le> clock ?w1 - 0)"
    and t2: "\<not> (0 < MaxElapsedTime ?c \<and> MaxElapsedTime ?c \<le> clock ?w3 - 0)"
    by (simp_all add: cfg testWorld_def Millisecond_def Minute_def Second_def)
  from t[THEN conjunct2, THEN conjunct1, THEN spec[of _ As_permanentError], rule_format,
         OF f1 p n1 t1 nx f2 p n2 t2, of 1]
  have two: "Retry_loop (Suc (Suc 1)) As_permanentError failsTwice ?c 0 0 (10 * Millisecond) testWorld =
       map_option (after [Invoked (Some ?e), Slept (10 * Millisecond),
                          Invoked (Some ?e), Slept (20 * Millisecond)])
         (Retry_loop 1 As_permanentError failsTwice ?c 0 2 (40 * Millisecond)
            (Sleep (20 * Millisecond) ?w3))"
    unfolding nx2 by simp
  from run alt sl rf cf sch f1 nx f2 two show ?thesis by blast
qed

section \<open>\<open>RetryWithContext\<close> with a context that is already cancelled\<close>

lemma newInterval_world:
  "newInterval c cur v = (nxt, v') \<Longrightarrow> v' = v \<or> v' = snd (Float64 v)"
  by (auto simp: newInterval_def Let_def split: if_splits prod.splits)

lemma user_Sleep [simp]: "user (Sleep d v) = user v"
  by (simp add: Sleep_def)

lemma user_Float64 [simp]: "user (snd (Float64 v)) = user v"
  by (simp add: Float64_def)

lemma Retry_loop_cancelled:
  assumes stay: "\<forall>v. ctx v = Some e \<longrightarrow> (\<forall>d. ctx (Sleep d v) = Some e) \<and> ctx (snd (Float64 v)) = Some e"
      and chk: "chk e = None"
  shows "ctx w = Some e \<Longrightarrow>
     Retry_loop rounds chk (\<lambda>w. case ctx w of Some e \<Rightarrow> (Some e, w) | None \<Rightarrow> fn w) c st a cur w = Some res \<Longrightarrow>
     err res = Some e \<and> user (final res) = user w \<and> (\<forall>r \<in> set (invocations (trace res)). r = Some e)"
proof (induction rounds arbitrary: a cur w res)
  case 0
  then show ?case by simp
next
  case (Suc rounds)
  let ?op = "\<lambda>w. case ctx w of Some e \<Rightarrow> (Some e, w) | None \<Rightarrow> fn w"
  from Suc.prems(1) have op: "?op w = (Some e, w)" by simp
  show ?case
  proof (cases "(0 < MaxRetries c \<and> MaxRetries c \<le> a + 1)
                \<or> (0 < MaxElapsedTime c \<and> MaxElapsedTime c \<le> clock w - st)")
    case True
    from Retry_loop_stops_at_cap[of ?op w e w chk c a st rounds cur, OF op chk True] Suc.prems(2)
    show ?thesis by auto
  next
    case False
    obtain nxt w2 where nx: "newInterval c cur w = (nxt, w2)" by (cases "newInterval c cur w")
    from newInterval_world[OF nx] stay Suc.prems(1)
    have c2: "ctx (Sleep cur w2) = Some e" and u2: "user (Sleep cur w2) = user w"
      by auto
    from False op chk nx Suc.prems(2)
    obtain r' where r': "Retry_loop rounds chk ?op c st (a + 1) nxt (Sleep cur w2) = Some r'"
      and res: "res = after [Invoked (Some e), Slept cur] r'"
      by (auto simp: Let_def map_option_after_eq Suc.prems(1))
    from Suc.IH[OF c2 r'] u2 res show ?thesis by auto
  qed
qed

lemma Retry_loop_cancelled_any:
  assumes stay: "\<forall>v. ctx v = Some e \<longrightarrow> (\<forall>d. ctx (Sleep d v) = Some e) \<and> ctx (snd (Float64 v)) = Some e"
  shows "ctx w = Some e \<Longrightarrow>
     Retry_loop rounds chk (\<lambda>w. case ctx w of Some e \<Rightarrow> (Some e, w) | None \<Rightarrow> fn w) c st a cur w =
     Retry_loop rounds chk (\<lambda>w. case ctx w of Some e \<Rightarrow> (Some e, w) | None \<Rightarrow> fn' w) c st a cur w"
proof (induction rounds arbitrary: a cur w)
  case 0
  then show ?case by simp
next
  case (Suc rounds)
  obtain nxt w2 where nx: "newInterval c cur w = (nxt, w2)" by (cases "newInterval c cur w")
  from newInterval_world[OF nx] stay Suc.prems(1)
  have c2: "ctx (Sleep cur w2) = Some e" by auto
  from Suc.IH[OF c2] Suc.prems nx show ?case
    by (cases "chk e") (simp_all add: Let_def)
qed

lemma Retry_loop_cancelled_never_returns:
  assumes stay: "\<forall>v. ctx v = Some e \<longrightarrow> (\<forall>d. ctx (Sleep d v) = Some e) \<and> ctx (snd (Float64 v)) = Some e"
      and chk: "chk e = None"
      and nocap: "MaxRetries c \<le> 0" "MaxElapsedTime c \<le> 0"
  shows "ctx w = Some e \<Longrightarrow>
     Retry_loop rounds chk (\<lambda>w. case ctx w of Some e \<Rightarrow> (Some e, w) | None \<Rightarrow> fn w) c st a cur w = None"
proof (induction rounds arbitrary: a cur w)
  case 0
  then show ?case by simp
next
  case (Suc rounds)
  obtain nxt w2 where nx: "newInterval c cur w = (nxt, w2)" by (cases "newInterval c cur w")
  from newInterval_world[OF nx] stay Suc.prems
  have c2: "ctx (Sleep cur w2) = Some e" by auto
  from Suc.IH[OF c2] Suc.prems nx chk nocap show ?case
    by (simp add: Let_def)
qed

text \<open>
  What the code does with a context that is done before the first attempt, with
  \<open>ctx.Err()\<close> one of \<open>context.Canceled\<close> and \<open>context.DeadlineExceeded\<close>, and that
  stays done while the run sleeps and draws random numbers: a run that returns has
  never invoked the caller's function (the counter beside it still has its initial
  value, and every attempt returned the context's error), and it returns the
  context's error; with an attempt cap \<open>n > 0\<close>, \<open>n\<close> rounds are enough for the run
  to return; the run does not depend on the caller's function at all. The wrapper
  does not end the run: the attempts that fail with the context's error are counted
  and followed by sleeps like any other, as in the example, where the second attempt
  comes after a sleep of 10ms.
\<close>

lemma RetryWithContext_cancelled_run:
  fixes fn :: "'u operation" and ctx :: "('u \<times> nat) Context"
  assumes cancelled: "ctx W = Some e"
      and e: "e = Canceled \<or> e = DeadlineExceeded"
      and stay: "\<forall>v. ctx v = Some e \<longrightarrow> (\<forall>d. ctx (Sleep d v) = Some e) \<and> ctx (snd (Float64 v)) = Some e"
  shows
  "(\<forall>rounds res. RetryWithContext rounds ctx (counted fn) opts W = Some res \<longrightarrow>
      locals (final res) = locals W \<and> err res = Some e
      \<and> (\<forall>r \<in> set (invocations (trace res)). r = Some e))
   \<and> (\<forall>rounds. 0 < MaxRetries (newConfig opts) \<longrightarrow> nat (MaxRetries (newConfig opts)) \<le> rounds \<longrightarrow>
        (\<exists>res. RetryWithContext rounds ctx (counted fn) opts W = Some res))
   \<and> (\<forall>rounds fn'. RetryWithContext rounds ctx fn' opts W =
                    RetryWithContext rounds ctx (counted fn) opts W)"
proof (intro conjI allI impI)
  from e have chk: "As_permanentError e = None"
    by (auto simp: Canceled_def DeadlineExceeded_def)
  fix rounds res
  assume "RetryWithContext rounds ctx (counted fn) opts W = Some res"
  then have "Retry_loop rounds As_permanentError
               (\<lambda>w. case ctx w of Some e \<Rightarrow> (Some e, w) | None \<Rightarrow> counted fn w)
               (newConfig opts) (clock W) 0 (InitialInterval (newConfig opts)) W = Some res"
    by (simp add: RetryWithContext_def Retry_unfold)
  from Retry_loop_cancelled[OF stay chk cancelled this]
  show "locals (final res) = locals W" "err res = Some e"
       "\<forall>r \<in> set (invocations (trace res)). r = Some e"
    by (simp_all add: locals_def)
next
  fix rounds
  assume "0 < MaxRetries (newConfig opts)" "nat (MaxRetries (newConfig opts)) \<le> rounds"
  then have "0 < MaxRetries (newConfig opts)" "0 < rounds" "nat (MaxRetries (newConfig opts) - 0) \<le> rounds"
    by auto
  from Retry_loop_returns[OF this]
  show "\<exists>res. RetryWithContext rounds ctx (counted fn) opts W = Some res"
    by (simp add: RetryWithContext_def Retry_unfold)
next
  fix rounds fn'
  show "RetryWithContext rounds ctx fn' opts W = RetryWithContext rounds ctx (counted fn) opts W"
    unfolding RetryWithContext_def Retry_unfold
    by (rule Retry_loop_cancelled_any[OF stay cancelled])
qed

lemma RetryWithContext_cancelled_run_example:
  "RetryWithContext 2 (\<lambda>w. Some Canceled) (counted (alwaysFails (New ''always fail'')))
     [Tries 2, Initial (10 * Millisecond)] (enter 0 testWorld) =
     Some \<lparr>err = Some Canceled,
           trace = [Invoked (Some Canceled), Slept (10 * Millisecond), Invoked (Some Canceled)],
           final = enter 0 (testWorld\<lparr>clock := 10 * Millisecond, drawn := 1\<rparr>)\<rparr>
   \<and> locals (enter (0::nat) (testWorld\<lparr>clock := 10 * Millisecond, drawn := 1\<rparr>)) = 0"
proof -
  let ?ctx = "\<lambda>w :: (nat \<times> nat) world. Some Canceled"
  let ?opts = "[Tries 2, Initial (10 * Millisecond)]"
  have run: "RetryWithContext 2 ?ctx (counted (alwaysFails (New ''always fail''))) ?opts (enter 0 testWorld) =
     Some \<lparr>err = Some Canceled,
           trace = [Invoked (Some Canceled), Slept (10 * Millisecond), Invoked (Some Canceled)],
           final = enter 0 (testWorld\<lparr>clock := 10 * Millisecond, drawn := 1\<rparr>)\<rparr>"
    by (simp add: RetryWithContext_def Retry_def newConfig_def applyOptions_def defaultConfig_def
        Tries_def Initial_def numeral_2_eq_2 testWorld_def newInterval_def Float64_def grown_def
        raw_def jittered_def Duration_def Sleep_def after_def enter_def Canceled_def
        Millisecond_def Second_def Minute_def)
  have "?ctx (enter 0 testWorld) = Some Canceled" "Canceled = Canceled \<or> Canceled = DeadlineExceeded"
    "\<forall>v. ?ctx v = Some Canceled \<longrightarrow> (\<forall>d. ?ctx (Sleep d v) = Some Canceled) \<and> ?ctx (snd (Float64 v)) = Some Canceled"
    by simp_all
  from RetryWithContext_cancelled_run[OF this, THEN conjunct1, rule_format, OF run] run
  show ?thesis by (simp add: locals_def enter_def)
qed

text \<open>
  C4. The claim has \<open>RetryWithContext\<close> return the cancellation error when the context
  is cancelled before any attempt, and the comment above the function says that the
  retry will stop immediately if the context is cancelled (helpers.go:10-11). The
  code does not stop: the wrapper's error is an ordinary failure for \<open>Retry\<close>, whose
  only exits after a failure are the attempt cap and the time cap (lines 94-99 of the
  loop). With neither cap in force (\<open>MaxRetries <= 0\<close> and \<open>MaxElapsedTime <= 0\<close>, as
  after \<open>Forever()\<close> and \<open>MaxTime(0)\<close>), the run with a context that is already
  cancelled returns for no number of rounds: it sleeps and asks the context again for
  ever, whatever the caller's function.
\<close>

theorem RetryWithContext_cancelled_never_returns:
  fixes fn :: "'u operation" and ctx :: "'u Context"
  assumes cancelled: "ctx W = Some e"
      and e: "e = Canceled \<or> e = DeadlineExceeded"
      and stay: "\<forall>v. ctx v = Some e \<longrightarrow> (\<forall>d. ctx (Sleep d v) = Some e) \<and> ctx (snd (Float64 v)) = Some e"
      and nocap: "MaxRetries (newConfig opts) \<le> 0" "MaxElapsedTime (newConfig opts) \<le> 0"
  shows "\<forall>rounds. RetryWithContext rounds ctx fn opts W = None"
proof
  fix rounds
  from e have chk: "As_permanentError e = None"
    by (auto simp: Canceled_def DeadlineExceeded_def)
  show "RetryWithContext rounds ctx fn opts W = None"
    unfolding RetryWithContext_def Retry_unfold
    by (rule Retry_loop_cancelled_never_returns[where ctx = ctx and chk = As_permanentError,
                OF stay chk nocap cancelled])
qed

theorem RetryWithContext_cancelled_never_returns_witness:
  "MaxRetries (newConfig [Forever, MaxTime 0]) = 0
   \<and> MaxElapsedTime (newConfig [Forever, MaxTime 0]) = 0
   \<and> (\<forall>rounds. RetryWithContext rounds (\<lambda>w. Some Canceled) (alwaysFails (New ''always fail''))
                  [Forever, MaxTime 0] testWorld = None)
   \<and> RetryWithContext 3 (\<lambda>w. Some Canceled) (alwaysFails (New ''always fail''))
        [Forever, MaxTime 0] testWorld = None"
proof -
  let ?ctx = "\<lambda>w :: nat world. Some Canceled"
  let ?opts = "[Forever, MaxTime 0]"
  have n: "MaxRetries (newConfig ?opts) = 0" "MaxElapsedTime (newConfig ?opts) = 0"
    by (simp_all add: newConfig_def applyOptions_def Forever_def MaxTime_def)
  have h: "?ctx testWorld = Some Canceled" "Canceled = Canceled \<or> Canceled = DeadlineExceeded"
    "\<forall>v. ?ctx v = Some Canceled \<longrightarrow> (\<forall>d. ?ctx (Sleep d v) = Some Canceled) \<and> ?ctx (snd (Float64 v)) = Some Canceled"
    "MaxRetries (newConfig ?opts) \<le> 0" "MaxElapsedTime (newConfig ?opts) \<le> 0"
    by (simp_all add: n)
  from RetryWithContext_cancelled_never_returns[OF h, of "alwaysFails (New ''always fail'')"] n
  show ?thesis by simp
qed

section \<open>Jitter\<close>

lemma Duration_nonneg: "0 \<le> x \<Longrightarrow> Duration x = \<lfloor>x\<rfloor>"
  by (simp add: Duration_def)

lemma jittered_value:
  "jittered c g r =
     Duration (real_of_int g - RandomizeFactor c * real_of_int g
               + r * (2 * (RandomizeFactor c * real_of_int g)))"
  by (simp add: jittered_def Let_def algebra_simps)

text \<open>
  C6, as stated: with jitter factor \<open>f\<close> in \<open>(0,1]\<close> and a draw in \<open>[0,1)\<close>, the next
  delay lies within \<open>[grown*(1-f), grown*(1+f)]\<close>. It does not: the delay is a whole
  number of nanoseconds, obtained by dropping the fraction. With \<open>f = 0.25\<close>, a grown
  interval of 10ns and the draw 0 the code computes \<open>time.Duration(7.5) = 7\<close>, below
  \<open>10 * 0.75 = 7.5\<close>; a run of \<open>Retry\<close> with an initial interval of 5ns sleeps those
  7ns before its third attempt.
\<close>

theorem jittered_below_range_counterexample:
  "0 < RandomizeFactor (newConfig [Initial 5, Jitter 0.25, Tries 3])
   \<and> RandomizeFactor (newConfig [Initial 5, Jitter 0.25, Tries 3]) \<le> 1
   \<and> grown (newConfig [Initial 5, Jitter 0.25, Tries 3]) 5 = 10
   \<and> jittered (newConfig [Initial 5, Jitter 0.25, Tries 3]) 10 0 = 7
   \<and> \<not> (real_of_int 10 * (1 - RandomizeFactor (newConfig [Initial 5, Jitter 0.25, Tries 3]))
          \<le> real_of_int (jittered (newConfig [Initial 5, Jitter 0.25, Tries 3]) 10 0))
   \<and> Retry 3 (alwaysFails (New ''always fail'')) [Initial 5, Jitter 0.25, Tries 3] testWorld =
       Some \<lparr>err = Some (New ''always fail''),
             trace = [Invoked (Some (New ''always fail'')), Slept 5,
                      Invoked (Some (New ''always fail'')), Slept 7,
                      Invoked (Some (New ''always fail''))],
             final = testWorld\<lparr>clock := 12, drawn := 2, user := 3\<rparr>\<rparr>"
  by (simp add: Retry_def newConfig_def applyOptions_def defaultConfig_def Tries_def Initial_def
      Jitter_def numeral_3_eq_3 alwaysFails_def testWorld_def newInterval_def Float64_def
      grown_def raw_def jittered_def Duration_def Sleep_def after_def Second_def Minute_def Millisecond_def)

text \<open>
  C6, amended: with jitter factor \<open>f\<close> in \<open>(0,1]\<close>, a draw in \<open>[0,1)\<close> and a grown
  interval \<open>grown >= 0\<close> (line 100), the next delay is the whole number of nanoseconds
  below a value of \<open>[grown*(1-f), grown*(1+f)]\<close>: it is more than \<open>grown*(1-f) - 1\<close>,
  at least the floor of \<open>grown*(1-f)\<close>, and at most \<open>grown*(1+f)\<close>. This is the
  interval lines 100-106 hand back as the next one.
\<close>

theorem jittered_range:
  assumes f: "0 < RandomizeFactor c" "RandomizeFactor c \<le> 1"
      and r: "0 \<le> r" "r < 1"
      and g: "g = grown c cur" "0 \<le> g"
  shows "real_of_int g * (1 - RandomizeFactor c) - 1 < real_of_int (jittered c g r)
         \<and> \<lfloor>real_of_int g * (1 - RandomizeFactor c)\<rfloor> \<le> jittered c g r
         \<and> real_of_int (jittered c g r) \<le> real_of_int g * (1 + RandomizeFactor c)
         \<and> fst (newInterval c cur w) = jittered c g (fst (Float64 w))"
proof -
  let ?f = "RandomizeFactor c"
  let ?d = "?f * real_of_int g"
  let ?v = "real_of_int g - ?d + r * (2 * ?d)"
  from f g have d: "0 \<le> ?d" by simp
  from f g have lo0: "0 \<le> real_of_int g - ?d"
    by (simp add: mult_left_le_one_le)
  from r d have j0: "0 \<le> r * (2 * ?d)" by simp
  from r d have j1: "r * (2 * ?d) \<le> 2 * ?d"
    by (simp add: mult_left_le_one_le)
  from lo0 j0 have v0: "0 \<le> ?v" by simp
  have jv: "jittered c g r = \<lfloor>?v\<rfloor>"
    unfolding jittered_value using v0 by (rule Duration_nonneg)
  have lo: "real_of_int g * (1 - ?f) \<le> ?v" using j0 by (simp add: algebra_simps)
  have hi: "?v \<le> real_of_int g * (1 + ?f)" using j1 by (simp add: algebra_simps)
  have 1: "real_of_int g * (1 - ?f) - 1 < real_of_int (jittered c g r)"
    unfolding jv using lo by linarith
  have 2: "\<lfloor>real_of_int g * (1 - ?f)\<rfloor> \<le> jittered c g r"
    unfolding jv using lo by (rule floor_mono)
  have 3: "real_of_int (jittered c g r) \<le> real_of_int g * (1 + ?f)"
    unfolding jv using hi by linarith
  have 4: "fst (newInterval c cur w) = jittered c g (fst (Float64 w))"
    using f g by (simp add: newInterval_def Let_def split: prod.splits)
  from 1 2 3 4 show ?thesis by blast
qed

theorem jittered_range_witness:
  "0 < RandomizeFactor (newConfig [Jitter 0.25]) \<and> RandomizeFactor (newConfig [Jitter 0.25]) \<le> 1
   \<and> (0::real) \<le> 0 \<and> (0::real) < 1 \<and> 10 = grown (newConfig [Jitter 0.25]) 5 \<and> (0::int) \<le> 10
   \<and> real_of_int 10 * (1 - RandomizeFactor (newConfig [Jitter 0.25])) - 1
        < real_of_int (jittered (newConfig [Jitter 0.25]) 10 0)
   \<and> real_of_int (jittered (newConfig [Jitter 0.25]) 10 0)
        \<le> real_of_int 10 * (1 + RandomizeFactor (newConfig [Jitter 0.25]))"
proof -
  let ?c = "newConfig [Jitter 0.25]"
  have f: "0 < RandomizeFactor ?c" "RandomizeFactor ?c \<le> 1"
    by (simp_all add: newConfig_def applyOptions_def Jitter_def)
  have r: "(0::real) \<le> 0" "(0::real) < 1" by simp_all
  have g: "10 = grown ?c 5" "(0::int) \<le> 10"
    by (simp_all add: newConfig_def applyOptions_def defaultConfig_def Jitter_def grown_def raw_def
        Duration_def Second_def)
  from jittered_range[OF f r g, where w = testWorld] f g show ?thesis by simp
qed

section \<open>Growth without jitter\<close>

lemma raw_mono:
  "0 \<le> Multiplier c \<Longrightarrow> 0 \<le> x \<Longrightarrow> x \<le> y \<Longrightarrow> raw c x \<le> raw c y"
proof -
  assume m: "0 \<le> Multiplier c" and x: "0 \<le> x" and xy: "x \<le> y"
  then have "real_of_int x * Multiplier c \<le> real_of_int y * Multiplier c"
    by (simp add: mult_right_mono)
  moreover from m x xy have "0 \<le> real_of_int x * Multiplier c" "0 \<le> real_of_int y * Multiplier c"
    by simp_all
  ultimately show ?thesis
    by (simp add: raw_def Duration_def floor_mono)
qed

lemma raw_ge:
  "1 \<le> Multiplier c \<Longrightarrow> 0 \<le> x \<Longrightarrow> x \<le> raw c x"
proof -
  assume m: "1 \<le> Multiplier c" and x: "0 \<le> x"
  then have "real_of_int x * 1 \<le> real_of_int x * Multiplier c"
    by (intro mult_left_mono) simp_all
  then have le: "real_of_int x \<le> real_of_int x * Multiplier c" by simp
  with x have "0 \<le> real_of_int x * Multiplier c" by linarith
  with le show ?thesis
    by (simp add: raw_def Duration_def le_floor_iff)
qed

lemma grown_le_MaxInterval: "grown c cur \<le> MaxInterval c"
  by (simp add: grown_def)

lemma grown_iterates:
  assumes m: "1 \<le> Multiplier c" and i: "0 \<le> InitialInterval c" "InitialInterval c \<le> MaxInterval c"
  shows "0 \<le> (grown c ^^ k) (InitialInterval c)
         \<and> (grown c ^^ k) (InitialInterval c) \<le> MaxInterval c
         \<and> (grown c ^^ k) (InitialInterval c) \<le> (grown c ^^ Suc k) (InitialInterval c)"
proof (induction k)
  case 0
  from raw_ge[OF m i(1)] i show ?case by (simp add: grown_def)
next
  case (Suc k)
  let ?x = "(grown c ^^ Suc k) (InitialInterval c)"
  from Suc have x0: "0 \<le> ?x" by linarith
  have xM: "?x \<le> MaxInterval c" by (simp add: grown_le_MaxInterval)
  from raw_ge[OF m x0] xM have "?x \<le> grown c ?x" by (simp add: grown_def)
  with x0 xM show ?case by simp
qed

text \<open>
  C7, as stated: with multiplier at least 1 and no jitter, and no constraint between
  the initial and the maximum interval, the successive values before the cap
  (\<open>time.Duration(float64(currentInterval)*config.Multiplier)\<close>) never decrease. They
  do when the initial interval exceeds the maximum: with 100ms, a maximum of 10ms and
  multiplier 2 the first value is 200ms and the second, computed from the capped 10ms,
  is 20ms. (The run shown sleeps the uncapped initial 100ms first, then 10ms.)
\<close>

theorem raw_delays_decrease_counterexample:
  "1 \<le> Multiplier (newConfig [Initial (100 * Millisecond), Max_opt (10 * Millisecond), Jitter 0])
   \<and> RandomizeFactor (newConfig [Initial (100 * Millisecond), Max_opt (10 * Millisecond), Jitter 0]) = 0
   \<and> raw (newConfig [Initial (100 * Millisecond), Max_opt (10 * Millisecond), Jitter 0])
        (100 * Millisecond) = 200 * Millisecond
   \<and> grown (newConfig [Initial (100 * Millisecond), Max_opt (10 * Millisecond), Jitter 0])
        (100 * Millisecond) = 10 * Millisecond
   \<and> raw (newConfig [Initial (100 * Millisecond), Max_opt (10 * Millisecond), Jitter 0])
        (10 * Millisecond) = 20 * Millisecond
   \<and> \<not> (raw (newConfig [Initial (100 * Millisecond), Max_opt (10 * Millisecond), Jitter 0])
             (100 * Millisecond)
           \<le> raw (newConfig [Initial (100 * Millisecond), Max_opt (10 * Millisecond), Jitter 0])
               (grown (newConfig [Initial (100 * Millisecond), Max_opt (10 * Millisecond), Jitter 0])
                  (100 * Millisecond)))
   \<and> Retry 3 (alwaysFails (New ''always fail''))
        [Initial (100 * Millisecond), Max_opt (10 * Millisecond), Jitter 0, Tries 3] testWorld =
       Some \<lparr>err = Some (New ''always fail''),
             trace = [Invoked (Some (New ''always fail'')), Slept (100 * Millisecond),
                      Invoked (Some (New ''always fail'')), Slept (10 * Millisecond),
                      Invoked (Some (New ''always fail''))],
             final = testWorld\<lparr>clock := 110 * Millisecond, user := 3\<rparr>\<rparr>"
  by (simp add: Retry_def newConfig_def applyOptions_def defaultConfig_def Tries_def Initial_def
      Max_opt_def Jitter_def numeral_3_eq_3 alwaysFails_def testWorld_def newInterval_def
      grown_def raw_def Duration_def Sleep_def after_def Millisecond_def Second_def Minute_def)

text \<open>
  C7, amended: with multiplier at least 1, no jitter (\<open>RandomizeFactor = 0\<close>) and
  \<open>0 <= InitialInterval <= MaxInterval\<close>, the successive values before the cap never
  decrease; and with multiplier at least 1 and no jitter, whatever the initial and the
  maximum interval, every interval the loop computes (lines 100-106) is the capped
  value and at most \<open>MaxInterval\<close>, so that in a run of \<open>Retry\<close> (either revision) the
  sleeps are the initial interval grown 0, 1, 2, ... times and every sleep after the
  first, which is the initial interval as configured, is at most \<open>MaxInterval\<close>.
\<close>

theorem raw_delays_monotone:
  fixes fn :: "'u operation"
  shows
  "(1 \<le> Multiplier c \<longrightarrow> RandomizeFactor c = 0 \<longrightarrow>
      0 \<le> InitialInterval c \<longrightarrow> InitialInterval c \<le> MaxInterval c \<longrightarrow>
      (\<forall>k. raw c ((grown c ^^ k) (InitialInterval c))
            \<le> raw c ((grown c ^^ Suc k) (InitialInterval c))))
   \<and> (1 \<le> Multiplier c \<longrightarrow> RandomizeFactor c = 0 \<longrightarrow>
        (\<forall>currentInterval (w :: 'u world).
           newInterval c currentInterval w = (grown c currentInterval, w)
           \<and> fst (newInterval c currentInterval w) \<le> MaxInterval c))
   \<and> (\<forall>rounds opts w res. newConfig opts = c \<longrightarrow> 1 \<le> Multiplier c \<longrightarrow> RandomizeFactor c = 0 \<longrightarrow>
        Retry rounds fn opts w = Some res \<or> Retry_prev rounds fn opts w = Some res \<longrightarrow>
        sleeps (trace res) =
          map (\<lambda>k. (grown c ^^ k) (InitialInterval c)) [0..<length (sleeps (trace res))]
        \<and> (\<forall>d \<in> set (tl (sleeps (trace res))). d \<le> MaxInterval c))"
proof (intro conjI allI impI)
  fix k
  assume a: "1 \<le> Multiplier c" "0 \<le> InitialInterval c" "InitialInterval c \<le> MaxInterval c"
  from grown_iterates[OF a, of k] a(1)
  show "raw c ((grown c ^^ k) (InitialInterval c)) \<le> raw c ((grown c ^^ Suc k) (InitialInterval c))"
    by (intro raw_mono) auto
next
  fix currentInterval and w :: "'u world"
  assume "RandomizeFactor c = 0"
  then show n: "newInterval c currentInterval w = (grown c currentInterval, w)"
    by (simp add: newInterval_def)
  show "fst (newInterval c currentInterval w) \<le> MaxInterval c"
    unfolding n by (simp add: grown_le_MaxInterval)
next
  fix rounds opts and w :: "'u world" and res
  assume c: "newConfig opts = c" and f: "RandomizeFactor c = 0"
    and "Retry rounds fn opts w = Some res \<or> Retry_prev rounds fn opts w = Some res"
  then obtain chk where
    l: "Retry_loop rounds chk fn c (clock w) 0 (InitialInterval c) w = Some res"
    unfolding Retry_unfold Retry_prev_unfold by blast
  from f have "RandomizeFactor c \<le> 0" by simp
  from Retry_loop_sleeps_no_jitter[OF this l]
  show s: "sleeps (trace res) =
      map (\<lambda>k. (grown c ^^ k) (InitialInterval c)) [0..<length (sleeps (trace res))]" .
  show "\<forall>d \<in> set (tl (sleeps (trace res))). d \<le> MaxInterval c"
  proof
    fix d
    assume "d \<in> set (tl (sleeps (trace res)))"
    then have "d \<in> set (tl (map (\<lambda>k. (grown c ^^ k) (InitialInterval c))
                               [0..<length (sleeps (trace res))]))"
      using s by simp
    then obtain j where "Suc 0 \<le> j" and dj: "d = (grown c ^^ j) (InitialInterval c)"
      by (auto simp: map_tl[symmetric] tl_upt)
    then obtain k where "j = Suc k" by (cases j) auto
    with dj have "d = (grown c ^^ Suc k) (InitialInterval c)" by simp
    then show "d \<le> MaxInterval c" by (simp add: grown_le_MaxInterval)
  qed
qed

theorem raw_delays_monotone_witness:
  "1 \<le> Multiplier (newConfig [Initial (10 * Millisecond), Jitter 0])
   \<and> RandomizeFactor (newConfig [Initial (10 * Millisecond), Jitter 0]) = 0
   \<and> 0 \<le> InitialInterval (newConfig [Initial (10 * Millisecond), Jitter 0])
   \<and> InitialInterval (newConfig [Initial (10 * Millisecond), Jitter 0])
        \<le> MaxInterval (newConfig [Initial (10 * Millisecond), Jitter 0])
   \<and> raw (newConfig [Initial (10 * Millisecond), Jitter 0])
        ((grown (newConfig [Initial (10 * Millisecond), Jitter 0]) ^^ 0) (10 * Millisecond))
      \<le> raw (newConfig [Initial (10 * Millisecond), Jitter 0])
        ((grown (newConfig [Initial (10 * Millisecond), Jitter 0]) ^^ Suc 0) (10 * Millisecond))
   \<and> raw (newConfig [Initial (10 * Millisecond), Jitter 0]) (10 * Millisecond) = 20 * Millisecond
   \<and> raw (newConfig [Initial (10 * Millisecond), Jitter 0]) (20 * Millisecond) = 40 * Millisecond
   \<and> newInterval (newConfig [Initial (10 * Millisecond), Jitter 0]) (20 * Second) testWorld =
       (30 * Second, testWorld)
   \<and> fst (newInterval (newConfig [Initial (10 * Millisecond), Jitter 0]) (20 * Second) testWorld)
       \<le> MaxInterval (newConfig [Initial (10 * Millisecond), Jitter 0])"
proof -
  let ?c = "newConfig [Initial (10 * Millisecond), Jitter 0]"
  have h: "1 \<le> Multiplier ?c" "RandomizeFactor ?c = 0" "0 \<le> InitialInterval ?c"
    "InitialInterval ?c \<le> MaxInterval ?c"
    by (simp_all add: newConfig_def applyOptions_def defaultConfig_def Initial_def Jitter_def
        Millisecond_def Second_def)
  have i: "InitialInterval ?c = 10 * Millisecond"
    by (simp add: newConfig_def applyOptions_def Initial_def Jitter_def)
  have v: "raw ?c (10 * Millisecond) = 20 * Millisecond" "raw ?c (20 * Millisecond) = 40 * Millisecond"
    by (simp_all add: newConfig_def applyOptions_def defaultConfig_def Initial_def Jitter_def
        raw_def Duration_def Millisecond_def)
  have g: "grown ?c (20 * Second) = 30 * Second"
    by (simp add: newConfig_def applyOptions_def defaultConfig_def Initial_def Jitter_def
        grown_def raw_def Duration_def Second_def)
  note t = raw_delays_monotone[of ?c]
  note n = t[THEN conjunct2, THEN conjunct1, rule_format, OF h(1,2), of "20 * Second" testWorld,
             unfolded g]
  have m: "MaxInterval ?c = 30 * Second"
    by (simp add: newConfig_def applyOptions_def defaultConfig_def Initial_def Jitter_def)
  from t[THEN conjunct1, rule_format, OF h, of 0] h v n
  show ?thesis unfolding i m by simp
qed

section \<open>Options\<close>

lemmas option_defs =
  WithInitialInterval_def WithMaxInterval_def WithMaxRetries_def WithMultiplier_def
  WithMaxElapsedTime_def WithRandomizeFactor_def Initial_def Max_opt_def MaxTime_def Tries_def
  Multiplier_opt_def Jitter_def NoJitter_def Forever_def Aggressive_def Gentle_def Linear_def
  Exponential_def HTTPStatus_def Database_def API_def Quick_def Timeout_def

lemma option_of_idempotent: "option_of v (option_of v c) = option_of v c"
  by (cases v) (simp_all add: option_defs)

lemma option_of_assigns:
  "f \<in> set (assigns v) \<Longrightarrow> field_of f (option_of v c) = field_of f (option_of v c')"
  by (cases v; cases f) (simp_all add: option_defs)

lemma option_of_keeps:
  "f \<notin> set (assigns v) \<Longrightarrow> field_of f (option_of v c) = field_of f c"
  by (cases v; cases f) (simp_all add: option_defs)

lemma applyOptions_append: "applyOptions (opts @ [opt]) c = opt (applyOptions opts c)"
  by (simp add: applyOptions_def)

text \<open>
  C8. Every option of the package, applied twice, gives what it gives applied once. A
  field that an option assigns has, after the option, a value that does not depend on
  the configuration before it, so of two options that assign the same field the one
  applied last decides the field, whatever the first did and also at the end of a list
  of options; a field an option does not assign keeps its value. In particular
  \<open>Tries n\<close> after the preset \<open>Database\<close> leaves \<open>MaxRetries = n\<close>.
\<close>

theorem options_idempotent_last_wins:
  "(\<forall>v c. option_of v (option_of v c) = option_of v c)
   \<and> (\<forall>v1 v2 f c c'. f \<in> set (assigns v1) \<longrightarrow> f \<in> set (assigns v2) \<longrightarrow>
        field_of f (option_of v2 (option_of v1 c)) = field_of f (option_of v2 c'))
   \<and> (\<forall>v f c. f \<notin> set (assigns v) \<longrightarrow> field_of f (option_of v c) = field_of f c)
   \<and> (\<forall>opts v f c c'. f \<in> set (assigns v) \<longrightarrow>
        field_of f (applyOptions (opts @ [option_of v]) c) = field_of f (option_of v c'))
   \<and> (\<forall>n c. MaxRetries (Tries n (Database c)) = n)
   \<and> (\<forall>n. MaxRetries (newConfig [Database, Tries n]) = n)"
proof (intro conjI allI impI)
  fix v c show "option_of v (option_of v c) = option_of v c" by (rule option_of_idempotent)
next
  fix v1 v2 f c c'
  assume "f \<in> set (assigns v2)"
  then show "field_of f (option_of v2 (option_of v1 c)) = field_of f (option_of v2 c')"
    by (rule option_of_assigns)
next
  fix v f c
  assume "f \<notin> set (assigns v)"
  then show "field_of f (option_of v c) = field_of f c" by (rule option_of_keeps)
next
  fix opts v f c c'
  assume "f \<in> set (assigns v)"
  then show "field_of f (applyOptions (opts @ [option_of v]) c) = field_of f (option_of v c')"
    unfolding applyOptions_append by (rule option_of_assigns)
next
  fix n c show "MaxRetries (Tries n (Database c)) = n" by (simp add: Tries_def)
next
  fix n show "MaxRetries (newConfig [Database, Tries n]) = n"
    by (simp add: newConfig_def applyOptions_def Tries_def)
qed

theorem options_idempotent_last_wins_witness:
  "MaxRetries_field \<in> set (assigns with_Database) \<and> MaxRetries_field \<in> set (assigns (with_Tries 3))
   \<and> field_of MaxRetries_field (option_of (with_Tries 3) (option_of with_Database defaultConfig)) = IntValue 3
   \<and> MaxRetries_field \<notin> set (assigns (with_Jitter 0))
   \<and> field_of MaxRetries_field (option_of (with_Jitter 0) defaultConfig) = IntValue 10
   \<and> option_of with_Database (option_of with_Database defaultConfig) = option_of with_Database defaultConfig"
proof -
  note t = options_idempotent_last_wins
  have a: "MaxRetries_field \<in> set (assigns with_Database)" "MaxRetries_field \<in> set (assigns (with_Tries 3))"
    by simp_all
  have b: "MaxRetries_field \<notin> set (assigns (with_Jitter 0))" by simp
  from t[THEN conjunct2, THEN conjunct1, rule_format, OF a, of defaultConfig defaultConfig]
  have 1: "field_of MaxRetries_field (option_of (with_Tries 3) (option_of with_Database defaultConfig)) = IntValue 3"
    by (simp add: Tries_def)
  from t[THEN conjunct2, THEN conjunct2, THEN conjunct1, rule_format, OF b, of defaultConfig]
  have 2: "field_of MaxRetries_field (option_of (with_Jitter 0) defaultConfig) = IntValue 10"
    by (simp add: defaultConfig_def)
  from t[THEN conjunct1, rule_format, of with_Database defaultConfig]
  have 3: "option_of with_Database (option_of with_Database defaultConfig) = option_of with_Database defaultConfig" .
  from a b 1 2 3 show ?thesis by blast
qed

section \<open>\<open>RetryWithLogging\<close>\<close>

lemma locals_enter [simp]: "locals (enter c w) = c"
  by (simp add: locals_def enter_def)

lemma locals_Sleep [simp]: "locals (Sleep d W) = locals W"
  by (simp add: locals_def)

lemma locals_newInterval: "newInterval c cur W = (nxt, W') \<Longrightarrow> locals W' = locals W"
  by (auto simp: locals_def dest: newInterval_world)

lemma logging_step:
  "locals W = (k, lg) \<Longrightarrow> RetryWithLogging_closure fn W = (r, W1) \<Longrightarrow>
   locals W1 = (k + 1, lg @ failure_lines (k + 1) [r])"
  by (auto simp: RetryWithLogging_closure_def Let_def split: prod.splits option.splits)

lemma Retry_loop_logging:
  "Retry_loop rounds chk (RetryWithLogging_closure fn) c st a cur W = Some res \<Longrightarrow> locals W = (k, lg) \<Longrightarrow>
   locals (final res) =
     (k + int (length (invocations (trace res))), lg @ failure_lines (k + 1) (invocations (trace res)))"
proof (induction rounds arbitrary: a cur W res k lg)
  case 0
  then show ?case by simp
next
  case (Suc rounds)
  obtain r W1 where op: "RetryWithLogging_closure fn W = (r, W1)" by (cases "RetryWithLogging_closure fn W")
  note l1 = logging_step[OF Suc.prems(2) op]
  show ?case
  proof (cases "trace res = [Invoked r] \<and> final res = W1")
    case True
    with l1 show ?thesis by simp
  next
    case False
    with Suc.prems(1) op obtain e nxt W2 r' where
      r: "r = Some e" and nx: "newInterval c cur W1 = (nxt, W2)" and
      r': "Retry_loop rounds chk (RetryWithLogging_closure fn) c st (a + 1) nxt (Sleep cur W2) = Some r'" and
      res: "res = after [Invoked (Some e), Slept cur] r'"
      by (auto split: prod.splits option.splits if_splits simp: Let_def map_option_after_eq)
    from locals_newInterval[OF nx] l1 r
    have "locals (Sleep cur W2) = (k + 1, lg @ failure_lines (k + 1) [Some e])" by simp
    from Suc.IH[OF r' this] res show ?thesis by (simp add: add.commute add.left_commute)
  qed
qed

text \<open>
  C9, as stated: a line is logged for every failed attempt except the final attempt,
  whether that one succeeds or exhausts the budget. The closure logs whenever the
  operation returns an error, so the failed attempt that exhausts the budget is logged
  too: with at most 2 attempts and an operation that always fails, two lines are
  logged, the second for the final attempt.
\<close>

theorem RetryWithLogging_logs_final_failure_counterexample:
  "RetryWithLogging 2 (alwaysFails (New ''always fail'')) [] [Tries 2, Initial (10 * Millisecond)] testWorld =
     Some \<lparr>err = Some (New ''always fail''),
           trace = [Invoked (Some (New ''always fail'')), Slept (10 * Millisecond),
                    Invoked (Some (New ''always fail''))],
           final = enter (2, [''Attempt 1 failed: always fail'', ''Attempt 2 failed: always fail''])
                     (testWorld\<lparr>clock := 10 * Millisecond, drawn := 1, user := 2\<rparr>)\<rparr>"
  by (simp add: RetryWithLogging_def RetryWithLogging_closure_def Retry_def newConfig_def
      applyOptions_def defaultConfig_def Tries_def Initial_def numeral_2_eq_2 alwaysFails_def
      testWorld_def newInterval_def Float64_def grown_def raw_def jittered_def Duration_def
      Sleep_def after_def enter_def leave_def locals_def Itoa_def digits.simps
      Millisecond_def Second_def Minute_def)

text \<open>
  C9, amended: \<open>RetryWithLogging\<close> appends to the logger exactly one line
  \<open>"Attempt N failed: <error>"\<close> for every attempt that fails, the last attempt
  included, in order and with \<open>N\<close> the number of the attempt, and no line for an
  attempt that succeeds (which can only be the last). With an operation failing on
  attempts 1 and 2 and succeeding on attempt 3 exactly two lines are logged, for
  attempts 1 and 2.
\<close>

theorem RetryWithLogging_lines:
  fixes fn :: "'u operation"
  shows
  "(\<forall>rounds logger opts w res.
      RetryWithLogging rounds fn logger opts w = Some res \<longrightarrow>
      snd (locals (final res)) = logger @ failure_lines 1 (invocations (trace res))
      \<and> fst (locals (final res)) = int (length (invocations (trace res)))
      \<and> (\<forall>r \<in> set (butlast (invocations (trace res))). r \<noteq> None))
   \<and> RetryWithLogging 3 failsTwiceNumbered [] [Initial (10 * Millisecond)] testWorld =
       Some \<lparr>err = None,
             trace = [Invoked (Some (New ''attempt 1 failed'')), Slept (10 * Millisecond),
                      Invoked (Some (New ''attempt 2 failed'')), Slept (10 * Millisecond),
                      Invoked None],
             final = enter (3, [''Attempt 1 failed: attempt 1 failed'',
                                ''Attempt 2 failed: attempt 2 failed''])
                       (testWorld\<lparr>clock := 20 * Millisecond, drawn := 2, user := 3\<rparr>)\<rparr>"
proof -
  have general: "snd (locals (final res)) = logger @ failure_lines 1 (invocations (trace res))
      \<and> fst (locals (final res)) = int (length (invocations (trace res)))
      \<and> (\<forall>r \<in> set (butlast (invocations (trace res))). r \<noteq> None)"
    if "RetryWithLogging rounds fn logger opts w = Some res" for rounds logger opts w res
  proof -
    from that have l: "Retry_loop rounds As_permanentError (RetryWithLogging_closure fn) (newConfig opts)
        (clock (enter (0::int, logger) w)) 0 (InitialInterval (newConfig opts))
        (enter (0::int, logger) w) = Some res"
      by (simp add: RetryWithLogging_def Retry_unfold)
    from Retry_loop_logging[OF l, of 0 logger] Retry_loop_outcome[OF l] show ?thesis
      by auto
  qed
  have scenario: "RetryWithLogging 3 failsTwiceNumbered [] [Initial (10 * Millisecond)] testWorld =
       Some \<lparr>err = None,
             trace = [Invoked (Some (New ''attempt 1 failed'')), Slept (10 * Millisecond),
                      Invoked (Some (New ''attempt 2 failed'')), Slept (10 * Millisecond),
                      Invoked None],
             final = enter (3, [''Attempt 1 failed: attempt 1 failed'',
                                ''Attempt 2 failed: attempt 2 failed''])
                       (testWorld\<lparr>clock := 20 * Millisecond, drawn := 2, user := 3\<rparr>)\<rparr>"
    by (simp add: RetryWithLogging_def RetryWithLogging_closure_def Retry_def newConfig_def
      applyOptions_def defaultConfig_def Initial_def numeral_3_eq_3 failsTwiceNumbered_def
      testWorld_def newInterval_def Float64_def grown_def raw_def jittered_def Duration_def
      Sleep_def after_def enter_def leave_def locals_def Itoa_def digits.simps
      Millisecond_def Second_def Minute_def)
  from general scenario show ?thesis by blast
qed

theorem RetryWithLogging_lines_witness:
  "RetryWithLogging 3 failsTwiceNumbered [] [Initial (10 * Millisecond)] testWorld =
       Some \<lparr>err = None,
             trace = [Invoked (Some (New ''attempt 1 failed'')), Slept (10 * Millisecond),
                      Invoked (Some (New ''attempt 2 failed'')), Slept (10 * Millisecond),
                      Invoked None],
             final = enter (3, [''Attempt 1 failed: attempt 1 failed'',
                                ''Attempt 2 failed: attempt 2 failed''])
                       (testWorld\<lparr>clock := 20 * Millisecond, drawn := 2, user := 3\<rparr>)\<rparr>
   \<and> failure_lines 1 [Some (New ''attempt 1 failed''), Some (New ''attempt 2 failed''), None] =
       [''Attempt 1 failed: attempt 1 failed'', ''Attempt 2 failed: attempt 2 failed'']"
proof -
  note t = RetryWithLogging_lines[of failsTwiceNumbered]
  from t have run: "RetryWithLogging 3 failsTwiceNumbered [] [Initial (10 * Millisecond)] testWorld =
       Some \<lparr>err = None,
             trace = [Invoked (Some (New ''attempt 1 failed'')), Slept (10 * Millisecond),
                      Invoked (Some (New ''attempt 2 failed'')), Slept (10 * Millisecond),
                      Invoked None],
             final = enter (3, [''Attempt 1 failed: attempt 1 failed'',
                                ''Attempt 2 failed: attempt 2 failed''])
                       (testWorld\<lparr>clock := 20 * Millisecond, drawn := 2, user := 3\<rparr>)\<rparr>"
    by (rule conjunct2)
  from t[THEN conjunct1, rule_format, OF run] run show ?thesis
    by (simp del: failure_lines.simps)
qed

section \<open>The iterator\<close>

lemma map_option_cons_eq:
  "map_option (\<lambda>(evs, w'). (f evs, w')) x = Some (evs', w'') \<longleftrightarrow>
   (\<exists>evs. x = Some (evs, w'') \<and> evs' = f evs)"
  by (cases x) auto

lemma never_at_first: "(0 < x \<and> x \<le> (0::int)) = False" "(0 < x \<and> x < (0::int)) = False"
  by auto

lemma Attempts_first_break:
  "yield firstAttempt w = (False, w2) \<Longrightarrow>
   Attempts (Suc rounds) opts yield w = Some ([Yielded firstAttempt], w2)"
  by (simp add: Attempts_def Let_def firstAttempt_def)

lemma Attempts_seq_first_break:
  "yield firstAttempt w = (False, w2) \<Longrightarrow>
   Attempts_seq (Suc rounds) gni opts yield w = Some ([Yielded firstAttempt], w2)"
  by (simp add: Attempts_seq_def Let_def firstAttempt_def never_at_first)

lemma Attempts_first_event:
  assumes "Attempts rounds opts yield w = Some (evs, w')"
  shows "\<exists>rest. evs = Yielded firstAttempt # rest"
proof (cases rounds)
  case 0
  with assms show ?thesis by (simp add: Attempts_def)
next
  case (Suc k)
  with assms show ?thesis
    by (cases "yield firstAttempt w")
       (auto simp: Attempts_def Let_def firstAttempt_def map_option_cons_eq split: bool.splits if_splits)
qed

lemma Attempts_seq_first_event:
  assumes "Attempts_seq rounds gni opts yield w = Some (evs, w')"
  shows "\<exists>rest. evs = Yielded firstAttempt # rest"
proof (cases rounds)
  case 0
  with assms show ?thesis by (simp add: Attempts_seq_def)
next
  case (Suc k)
  with assms show ?thesis
    by (cases "yield firstAttempt w")
       (auto simp: Attempts_seq_def Let_def firstAttempt_def map_option_cons_eq never_at_first
             split: bool.splits if_splits prod.splits)
qed








lemma outcome_retryable: "retryable r \<Longrightarrow> outcome As_permanentError r = r"
  by (cases r) (auto simp: outcome_def)







text \<open>
  C10. Whatever the options, a finished iteration of \<open>Attempts\<close> (either revision)
  starts with a yielded attempt that has \<open>Number = 1\<close>, \<open>Delay = 0\<close> and a \<open>nil\<close>
  \<open>LastError\<close>, with no sleep before it; and when the loop body leaves the loop at
  this first attempt, the iteration is that one attempt, yielded in the world in which
  the iteration started. No cap, zero or negative, makes the sequence empty.
\<close>

theorem Attempts_first_attempt:
  fixes yield :: "'u yield"
  shows
  "(\<forall>rounds opts w evs w'.
      Attempts rounds opts yield w = Some (evs, w') \<longrightarrow> (\<exists>rest. evs = Yielded firstAttempt # rest))
   \<and> (\<forall>rounds opts w w2.
      yield firstAttempt w = (False, w2) \<longrightarrow>
      Attempts (Suc rounds) opts yield w = Some ([Yielded firstAttempt], w2))
   \<and> (\<forall>rounds getNextInterval opts w evs w'.
      Attempts_seq rounds getNextInterval opts yield w = Some (evs, w') \<longrightarrow>
      (\<exists>rest. evs = Yielded firstAttempt # rest))
   \<and> (\<forall>rounds getNextInterval opts w w2.
      yield firstAttempt w = (False, w2) \<longrightarrow>
      Attempts_seq (Suc rounds) getNextInterval opts yield w = Some ([Yielded firstAttempt], w2))
   \<and> Number firstAttempt = 1 \<and> Delay firstAttempt = 0 \<and> LastError firstAttempt = None"
proof (intro conjI allI impI)
  fix rounds opts and w :: "'u world" and evs w'
  assume "Attempts rounds opts yield w = Some (evs, w')"
  then show "\<exists>rest. evs = Yielded firstAttempt # rest" by (rule Attempts_first_event)
next
  fix rounds opts and w :: "'u world" and w2
  assume "yield firstAttempt w = (False, w2)"
  then show "Attempts (Suc rounds) opts yield w = Some ([Yielded firstAttempt], w2)"
    by (rule Attempts_first_break)
next
  fix rounds and getNextInterval :: "'u getNextInterval" and opts and w :: "'u world" and evs w'
  assume "Attempts_seq rounds getNextInterval opts yield w = Some (evs, w')"
  then show "\<exists>rest. evs = Yielded firstAttempt # rest" by (rule Attempts_seq_first_event)
next
  fix rounds and getNextInterval :: "'u getNextInterval" and opts and w :: "'u world" and w2
  assume "yield firstAttempt w = (False, w2)"
  then show "Attempts_seq (Suc rounds) getNextInterval opts yield w = Some ([Yielded firstAttempt], w2)"
    by (rule Attempts_seq_first_break)
qed (simp_all add: firstAttempt_def)

theorem Attempts_first_attempt_witness:
  "breakAtOnce firstAttempt testWorld = (False, testWorld\<lparr>user := 1\<rparr>)
   \<and> Attempts 1 [Tries 0, MaxTime (- 1)] breakAtOnce testWorld =
       Some ([Yielded firstAttempt], testWorld\<lparr>user := 1\<rparr>)
   \<and> Attempts_seq 1 (\<lambda>d f w. (d, w)) [Tries (- 1), MaxTime 0] breakAtOnce testWorld =
       Some ([Yielded firstAttempt], testWorld\<lparr>user := 1\<rparr>)"
proof -
  have b: "breakAtOnce firstAttempt testWorld = (False, testWorld\<lparr>user := 1\<rparr>)"
    by (simp add: breakAtOnce_def testWorld_def)
  note t = Attempts_first_attempt[of breakAtOnce]
  from t[THEN conjunct2, THEN conjunct1, rule_format, OF b, of 0 "[Tries 0, MaxTime (- 1)]"]
       t[THEN conjunct2, THEN conjunct2, THEN conjunct2, THEN conjunct1, rule_format, OF b,
         of 0 "\<lambda>d f w. (d, w)" "[Tries (- 1), MaxTime 0]"] b
  show ?thesis by simp
qed

section \<open>\<open>DoWithAttempts\<close>\<close>



end
